theory Spec2Isabelle
  imports Complex_Main "HOL-Library.Char_ord" "HOL-Library.List_Lexorder" "HOL-Library.Log_Nat"
begin

section \<open>JavaScript values used by the booking pages\<close>

text \<open>
  Times of day travel through the application as strings (\<^verbatim>\<open>"06:00"\<close>). They are
  compared with the string operators of JavaScript, which order strings
  lexicographically by character code: the order of \<^typ>\<open>char list\<close> from
  \<^verbatim>\<open>List_Lexorder\<close> over the order of characters from \<^verbatim>\<open>Char_ord\<close>.

  Numbers are IEEE binary64 doubles in the source. The model holds a finite double as
  the rational it denotes and keeps \<open>NaN\<close> as a value of its own, since the source's
  comparisons with \<open>NaN\<close> are all false and that decides some branches.
\<close>

datatype number = NaN | Num rat

text \<open>
  The result of a division or a multiplication of doubles is the exact result rounded to
  the nearest double, a tie going to the even significand: \<open>binary64\<close>. With
  \<open>2 ^ k \<le> \<bar>x\<bar> < 2 ^ (k + 1)\<close> the doubles around \<open>x\<close> are the multiples of
  \<open>2 ^ (k - 52)\<close>; \<open>binade\<close> computes that \<open>k\<close>. Overflow and the subnormal
  range, far from any duration or amount of money, are left out. Sums and differences of
  whole numbers below \<open>2 ^ 53\<close> are exact, and are written as such.
\<close>

definition round_even :: "rat \<Rightarrow> int" where
  "round_even x =
     (let f = \<lfloor>x\<rfloor>; r = x - of_int f
      in if r < 1 / 2 then f else if r > 1 / 2 then f + 1 else if even f then f else f + 1)"

definition binade :: "rat \<Rightarrow> int" where
  "binade x =
     (if \<bar>x\<bar> \<ge> 1 then bitlen \<lfloor>\<bar>x\<bar>\<rfloor> - 1 else - bitlen (\<lceil>1 / \<bar>x\<bar>\<rceil> - 1))"

definition binary64 :: "rat \<Rightarrow> rat" where
  "binary64 x =
     (if x = 0 then 0
      else (let e = binade x - 52 in of_int (round_even (x / 2 powi e)) * 2 powi e))"

text \<open>\<^verbatim>\<open>Math.round\<close> of a double: the nearest integer, a tie going up.\<close>

definition Math_round :: "rat \<Rightarrow> int" where
  "Math_round x = \<lfloor>x + 1 / 2\<rfloor>"

definition digit_char :: "nat \<Rightarrow> char" where
  "digit_char d = char_of (48 + d)"

text \<open>\<^verbatim>\<open>n.toString()\<close> for a non-negative integer: its decimal digits.\<close>

fun toString :: "nat \<Rightarrow> string" where
  "toString n =
     (if n < 10 then [digit_char n] else toString (n div 10) @ [digit_char (n mod 10)])"

declare toString.simps [simp del]

text \<open>\<^verbatim>\<open>s.padStart(w, c)\<close> with a one-character filler.\<close>

definition padStart :: "nat \<Rightarrow> char \<Rightarrow> string \<Rightarrow> string" where
  "padStart w c s = replicate (w - length s) c @ s"

text \<open>\<^verbatim>\<open>s.split(c)\<close>: the pieces between the separators; never an empty array.\<close>

fun split_str :: "char \<Rightarrow> string \<Rightarrow> string list" where
  "split_str c [] = [[]]"
| "split_str c (x # xs) =
     (if x = c then [] # split_str c xs
      else (case split_str c xs of p # ps \<Rightarrow> (x # p) # ps | [] \<Rightarrow> [[x]]))"

definition is_digit :: "char \<Rightarrow> bool" where
  "is_digit c = (CHR ''0'' \<le> c \<and> c \<le> CHR ''9'')"

definition digit_val :: "char \<Rightarrow> nat" where
  "digit_val c = of_char c - 48"

text \<open>
  \<^verbatim>\<open>Number(s)\<close> on the pieces of a time string: a string of decimal digits is its
  value, the empty string is 0, and \<open>None\<close> stands for \<open>NaN\<close>. Signs, fractions,
  exponents and blanks, which \<^verbatim>\<open>Number\<close> also reads, do not occur in the pieces of a
  time of day; the model maps them to \<open>NaN\<close>, and is the source's \<^verbatim>\<open>Number\<close> on
  strings of digits only. The properties below are about times whose pieces are such
  strings. The value is a natural number; as a double it is the same number below
  \<open>2 ^ 53\<close>, and so are the minutes \<^verbatim>\<open>hour * 60 + minute\<close> made of it.
\<close>

definition Number :: "string \<Rightarrow> nat option" where
  "Number s =
     (if list_all is_digit s then Some (foldl (\<lambda>a c. 10 * a + digit_val c) 0 s) else None)"

text \<open>
  The pattern \<^verbatim>\<open>const [h, m] = t.split(':').map(Number); h * 60 + m\<close>, which the
  booking page repeats for every time it reads. A missing second piece is
  \<^verbatim>\<open>undefined\<close>, and the sum is then \<open>NaN\<close> (\<open>None\<close>).
\<close>

definition totalMinutes :: "string \<Rightarrow> nat option" where
  "totalMinutes t =
     (case map Number (split_str (CHR '':'') t) of
        Some h # Some m # _ \<Rightarrow> Some (h * 60 + m)
      | _ \<Rightarrow> None)"

text \<open>
  The template
  \<^verbatim>\<open>`${hour.toString().padStart(2, '0')}:${minute.toString().padStart(2, '0')}`\<close>
  with \<^verbatim>\<open>hour = Math.floor(minutes / 60)\<close> and \<^verbatim>\<open>minute = minutes % 60\<close>.
\<close>

definition timeString :: "nat \<Rightarrow> string" where
  "timeString minutes =
     (let hour = minutes div 60; minute = minutes mod 60
      in padStart 2 (CHR ''0'') (toString hour) @ '':'' @ padStart 2 (CHR ''0'') (toString minute))"

section \<open>Settings and games\<close>

text \<open>\<^verbatim>\<open>SystemSettings\<close> of \<^verbatim>\<open>lib/settings-service.ts\<close>, as the booking page reads it.\<close>

record SystemSettings =
  opening_time :: string
  closing_time :: string
  is_24_7 :: bool
  advance_booking_days :: nat
  require_admin_approval :: bool
  booking_slot_duration :: nat
  min_booking_duration :: rat
  max_booking_duration :: rat
  cancellation_deadline :: rat

text \<open>\<^verbatim>\<open>defaultSettings\<close>, which \<^verbatim>\<open>getSettings\<close> returns when no row is stored.\<close>

definition defaultSettings :: SystemSettings where
  "defaultSettings =
     \<lparr>opening_time = ''06:00'', closing_time = ''22:00'', is_24_7 = False,
      advance_booking_days = 7, require_admin_approval = True, booking_slot_duration = 30,
      min_booking_duration = 1, max_booking_duration = 4, cancellation_deadline = 2\<rparr>"

text \<open>
  A game of the \<^verbatim>\<open>games\<close> table. \<open>price_per_hour\<close> is the price the row holds; the
  page has it as a JavaScript number, which is the double nearest to it: \<open>binary64\<close>
  of it, the price itself when that is a double (every whole price below \<open>2 ^ 53\<close>).
\<close>

record Game =
  game_name :: string
  price_per_hour :: rat
  max_players :: nat

text \<open>The rows \<^verbatim>\<open>{start_time, end_time}\<close> the booking page selects for a game and date.\<close>

record TimeRange =
  start_time :: string
  end_time :: string

section \<open>The booking page: duration, cost, time options, conflicts\<close>

text \<open>
  The component state (\<^verbatim>\<open>settings\<close>, \<^verbatim>\<open>selectedGame\<close>, \<^verbatim>\<open>existingBookings\<close>,
  the form's times) is passed to each function; \<open>None\<close> is \<^verbatim>\<open>null\<close>, and the empty
  string is the unset form field.
\<close>

definition calculateDuration :: "SystemSettings option \<Rightarrow> string \<Rightarrow> string \<Rightarrow> number" where
  "calculateDuration settings startTime endTime =
     (case settings of
        None \<Rightarrow> Num 0
      | Some st \<Rightarrow>
          if startTime = [] \<or> endTime = [] then Num 0
          else (case (totalMinutes startTime, totalMinutes endTime) of
                  (Some startTotalMinutes, Some endTotalMinutes0) \<Rightarrow>
                    (let endTotalMinutes =
                           (if is_24_7 st \<and> endTotalMinutes0 \<le> startTotalMinutes
                            then endTotalMinutes0 + 24 * 60 else endTotalMinutes0)
                     in if endTotalMinutes \<le> startTotalMinutes then Num 0
                        else Num (binary64
                               ((rat_of_nat endTotalMinutes - rat_of_nat startTotalMinutes) / 60)))
                | _ \<Rightarrow> NaN))"

text \<open>The value \<^verbatim>\<open>calculateCost\<close> stores with \<^verbatim>\<open>setEstimatedCost\<close>.\<close>

definition calculateCost ::
  "Game option \<Rightarrow> SystemSettings option \<Rightarrow> string \<Rightarrow> string \<Rightarrow> int" where
  "calculateCost selectedGame settings startTime endTime =
     (case selectedGame of
        None \<Rightarrow> 0
      | Some g \<Rightarrow>
          if startTime = [] \<or> endTime = [] then 0
          else (case calculateDuration settings startTime endTime of
                  Num duration \<Rightarrow>
                    if duration > 0
                    then Math_round (binary64 (binary64 (price_per_hour g) * duration))
                    else 0
                | NaN \<Rightarrow> 0))"

text \<open>
  The loop \<^verbatim>\<open>for (let minutes = start; minutes < end; minutes += slotDuration)\<close> of
  \<^verbatim>\<open>generateTimeOptions\<close>. With a slot of 0 minutes it never ends: the value \<open>None\<close>.
\<close>

partial_function (option) time_loop ::
  "nat \<Rightarrow> nat \<Rightarrow> nat \<Rightarrow> string list \<Rightarrow> string list option" where
  "time_loop minutes endTotalMinutes slotDuration options =
     (if minutes < endTotalMinutes
      then time_loop (minutes + slotDuration) endTotalMinutes slotDuration
             (options @ [timeString minutes])
      else Some options)"

definition generateTimeOptions :: "SystemSettings option \<Rightarrow> string list option" where
  "generateTimeOptions settings =
     (case settings of
        None \<Rightarrow> Some []
      | Some st \<Rightarrow>
          (let slotDuration = booking_slot_duration st
           in if is_24_7 st then time_loop 0 (24 * 60) slotDuration []
              else (case (totalMinutes (opening_time st), totalMinutes (closing_time st)) of
                      (Some startTotalMinutes, Some endTotalMinutes) \<Rightarrow>
                        time_loop startTotalMinutes endTotalMinutes slotDuration []
                    | _ \<Rightarrow> Some [])))"

definition isTimeSlotAvailable :: "TimeRange list \<Rightarrow> string \<Rightarrow> string \<Rightarrow> bool" where
  "isTimeSlotAvailable existingBookings startTime endTime =
     (\<not> list_ex (\<lambda>booking.
          (startTime \<ge> start_time booking \<and> startTime < end_time booking) \<or>
          (endTime > start_time booking \<and> endTime \<le> end_time booking) \<or>
          (startTime \<le> start_time booking \<and> endTime \<ge> end_time booking)) existingBookings)"

text \<open>
  What \<^verbatim>\<open>validateTimeSelection\<close> leaves in \<^verbatim>\<open>timeError\<close>: nothing, the minimum or
  maximum duration message (with the bound it prints), or
  \<^verbatim>\<open>'Selected time conflicts with an existing booking'\<close>.
\<close>

datatype time_error = NoError | MinimumDuration rat | MaximumDuration rat | ConflictsWithExisting

definition less_number :: "number \<Rightarrow> rat \<Rightarrow> bool" where
  "less_number d r = (case d of NaN \<Rightarrow> False | Num x \<Rightarrow> x < r)"

definition greater_number :: "number \<Rightarrow> rat \<Rightarrow> bool" where
  "greater_number d r = (case d of NaN \<Rightarrow> False | Num x \<Rightarrow> x > r)"

definition validateTimeSelection ::
  "SystemSettings option \<Rightarrow> TimeRange list \<Rightarrow> string \<Rightarrow> string \<Rightarrow> time_error" where
  "validateTimeSelection settings existingBookings startTime endTime =
     (case settings of
        None \<Rightarrow> NoError
      | Some st \<Rightarrow>
          if startTime = [] \<or> endTime = [] then NoError
          else (let duration = calculateDuration settings startTime endTime
                in if less_number duration (min_booking_duration st)
                   then MinimumDuration (min_booking_duration st)
                   else if greater_number duration (max_booking_duration st)
                   then MaximumDuration (max_booking_duration st)
                   else (let hasConflict = list_ex (\<lambda>booking.
                               (startTime \<ge> start_time booking \<and> startTime < end_time booking) \<or>
                               (endTime > start_time booking \<and> endTime \<le> end_time booking) \<or>
                               (startTime \<le> start_time booking \<and> endTime \<ge> end_time booking))
                             existingBookings
                         in if hasConflict then ConflictsWithExisting else NoError)))"

text \<open>
  The duration in hours as the specification words it (sections 4.2 and 4.4), from the
  minutes since midnight of the start and the end: under \<open>is_24_7\<close> an end at or
  before the start lies on the next day, 1440 minutes later; otherwise the difference is
  taken as it is, and is then zero or negative for such an end.
\<close>

definition spec_duration_hours :: "bool \<Rightarrow> nat \<Rightarrow> nat \<Rightarrow> rat" where
  "spec_duration_hours is247 startMinutes endMinutes =
     (if is247 \<and> endMinutes \<le> startMinutes
      then (rat_of_nat endMinutes + 1440 - rat_of_nat startMinutes) / 60
      else (rat_of_nat endMinutes - rat_of_nat startMinutes) / 60)"

text \<open>
  A time of day in the form the page's own \<open>timeString\<close> writes: zero-padded
  \<^verbatim>\<open>HH:MM\<close> below 24:00.
\<close>

definition is_time_of_day :: "string \<Rightarrow> bool" where
  "is_time_of_day t =
     (case totalMinutes t of Some m \<Rightarrow> m < 24 * 60 \<and> timeString m = t | None \<Rightarrow> False)"

text \<open>
  The spec's rules for a settings value (section 4.1), for a settings row that is
  complete. The opening and closing times are compared by their minutes since midnight,
  as \<^verbatim>\<open>generateTimeOptions\<close> reads them, so that a time with seconds
  (\<^verbatim>\<open>06:00:00\<close>, as a \<^verbatim>\<open>TIME\<close> column prints it) is covered.
\<close>

definition spec_valid_settings :: "SystemSettings \<Rightarrow> bool" where
  "spec_valid_settings st =
     ((is_24_7 st \<or>
         (case (totalMinutes (opening_time st), totalMinutes (closing_time st)) of
            (Some opening, Some closing) \<Rightarrow> opening < closing \<and> closing \<le> 24 * 60
          | _ \<Rightarrow> False)) \<and>
      1 \<le> advance_booking_days st \<and> advance_booking_days st \<le> 30 \<and>
      booking_slot_duration st \<in> {15, 30, 60} \<and>
      1 / 2 \<le> min_booking_duration st \<and> min_booking_duration st \<le> 8 \<and>
      1 \<le> max_booking_duration st \<and> max_booking_duration st \<le> 12 \<and>
      min_booking_duration st < max_booking_duration st \<and>
      0 \<le> cancellation_deadline st \<and> cancellation_deadline st \<le> 48)"

text \<open>The minute at which the generated times start and the minute they stay below.\<close>

definition opening_minute :: "SystemSettings \<Rightarrow> nat option" where
  "opening_minute st = (if is_24_7 st then Some 0 else totalMinutes (opening_time st))"

definition closing_minute :: "SystemSettings \<Rightarrow> nat option" where
  "closing_minute st = (if is_24_7 st then Some (24 * 60) else totalMinutes (closing_time st))"

text \<open>
  \<^verbatim>\<open>getMinDate\<close>. A \<^verbatim>\<open>Date\<close> is an instant, held here by its UTC calendar date
  and minute of the day (the seconds play no part in the date).
  \<^verbatim>\<open>toISOString().split('T')[0]\<close> writes that UTC date as \<^verbatim>\<open>YYYY-MM-DD\<close>.
  \<^verbatim>\<open>getDate\<close> and \<^verbatim>\<open>setDate\<close> work on the local date and time, which is the
  UTC one shifted by the offset of the time zone:
  \<^verbatim>\<open>setDate(getDate() + 1)\<close> moves the local date to the next calendar day, rolling
  over the month and the year, keeps the local time of day, and the result is converted
  back to UTC. The zone gives the offset in force now and the one in force at the new
  local time (they differ across a change to or from daylight saving time), in minutes
  east of UTC, each within a day.
\<close>

record CalDate =
  year :: nat
  month :: nat
  day :: nat

definition leap_year :: "nat \<Rightarrow> bool" where
  "leap_year y = (y mod 4 = 0 \<and> (y mod 100 \<noteq> 0 \<or> y mod 400 = 0))"

definition days_in_month :: "nat \<Rightarrow> nat \<Rightarrow> nat" where
  "days_in_month y m =
     (if m = 2 then (if leap_year y then 29 else 28)
      else if m \<in> {4, 6, 9, 11} then 30 else 31)"

definition valid_date :: "CalDate \<Rightarrow> bool" where
  "valid_date d =
     (1 \<le> month d \<and> month d \<le> 12 \<and> 1 \<le> day d \<and> day d \<le> days_in_month (year d) (month d))"

definition next_day :: "CalDate \<Rightarrow> CalDate" where
  "next_day d =
     (if day d < days_in_month (year d) (month d) then d\<lparr>day := day d + 1\<rparr>
      else if month d < 12 then d\<lparr>month := month d + 1, day := 1\<rparr>
      else \<lparr>year = year d + 1, month = 1, day = 1\<rparr>)"

definition date_less :: "CalDate \<Rightarrow> CalDate \<Rightarrow> bool" where
  "date_less a b =
     (year a < year b \<or> (year a = year b \<and>
        (month a < month b \<or> (month a = month b \<and> day a < day b))))"

definition toISODate :: "CalDate \<Rightarrow> string" where
  "toISODate d =
     padStart 4 (CHR ''0'') (toString (year d)) @ ''-'' @
     padStart 2 (CHR ''0'') (toString (month d)) @ ''-'' @
     padStart 2 (CHR ''0'') (toString (day d))"

definition prev_day :: "CalDate \<Rightarrow> CalDate" where
  "prev_day d =
     (if 1 < day d then d\<lparr>day := day d - 1\<rparr>
      else if 1 < month d
        then d\<lparr>month := month d - 1, day := days_in_month (year d) (month d - 1)\<rparr>
      else \<lparr>year = year d - 1, month = 12, day = 31\<rparr>)"

record DateTime =
  date_part :: CalDate
  minute_of_day :: nat

record TimeZone =
  offset_now :: int
  offset_next_day :: int

text \<open>A date and time moved by a number of minutes that is less than a day.\<close>

definition shift_minutes :: "int \<Rightarrow> DateTime \<Rightarrow> DateTime" where
  "shift_minutes off t =
     (let m = int (minute_of_day t) + off
      in if m < 0 then \<lparr>date_part = prev_day (date_part t), minute_of_day = nat (m + 1440)\<rparr>
         else if m \<ge> 1440
           then \<lparr>date_part = next_day (date_part t), minute_of_day = nat (m - 1440)\<rparr>
         else \<lparr>date_part = date_part t, minute_of_day = nat m\<rparr>)"

definition local_time :: "TimeZone \<Rightarrow> DateTime \<Rightarrow> DateTime" where
  "local_time zone utc = shift_minutes (offset_now zone) utc"

text \<open>\<^verbatim>\<open>d.setDate(d.getDate() + 1)\<close>, from the instant \<open>utc\<close> to the new instant.\<close>

definition setDate_next :: "TimeZone \<Rightarrow> DateTime \<Rightarrow> DateTime" where
  "setDate_next zone utc =
     (let local = local_time zone utc;
          moved = local\<lparr>date_part := next_day (date_part local)\<rparr>
      in shift_minutes (- offset_next_day zone) moved)"

text \<open>
  \<open>now\<close> is the instant both \<^verbatim>\<open>new Date()\<close> give (the second is taken a moment
  after the first).
\<close>

definition getMinDate :: "SystemSettings option \<Rightarrow> TimeZone \<Rightarrow> DateTime \<Rightarrow> string" where
  "getMinDate settings zone now =
     (let today = now
      in if (case settings of None \<Rightarrow> False | Some st \<Rightarrow> is_24_7 st)
         then toISODate (date_part today)
         else (let tomorrow = setDate_next zone now in toISODate (date_part tomorrow)))"

section \<open>The settings service: \<^verbatim>\<open>validateSettings\<close>\<close>

text \<open>
  \<^verbatim>\<open>Partial<SystemSettings>\<close>: every field may be absent (\<open>None\<close>). A numeric field
  that is present may hold \<open>NaN\<close>, which is what the settings form's \<^verbatim>\<open>parseInt\<close>
  gives for an empty input.
\<close>

record PartialSettings =
  opening_time' :: "string option"
  closing_time' :: "string option"
  is_24_7' :: "bool option"
  advance_booking_days' :: "number option"
  require_admin_approval' :: "bool option"
  booking_slot_duration' :: "number option"
  min_booking_duration' :: "number option"
  max_booking_duration' :: "number option"
  cancellation_deadline' :: "number option"

record ValidationResult =
  isValid :: bool
  errors :: "string list"

text \<open>
  Truthiness, as the guards \<^verbatim>\<open>settings.x && ...\<close> test it: \<^verbatim>\<open>undefined\<close>,
  \<^verbatim>\<open>false\<close>, \<^verbatim>\<open>0\<close>, \<open>NaN\<close> and the empty string are falsy.
\<close>

definition truthy_number :: "number option \<Rightarrow> bool" where
  "truthy_number v = (case v of Some (Num x) \<Rightarrow> x \<noteq> 0 | _ \<Rightarrow> False)"

definition truthy_string :: "string option \<Rightarrow> bool" where
  "truthy_string v = (case v of Some s \<Rightarrow> s \<noteq> [] | None \<Rightarrow> False)"

definition truthy_bool :: "bool option \<Rightarrow> bool" where
  "truthy_bool v = (case v of Some b \<Rightarrow> b | None \<Rightarrow> False)"

text \<open>The guard \<^verbatim>\<open>settings.x && (settings.x < lo || settings.x > hi)\<close>.\<close>

definition outside :: "number option \<Rightarrow> rat \<Rightarrow> rat \<Rightarrow> bool" where
  "outside v lo hi =
     (truthy_number v \<and> (case v of Some (Num x) \<Rightarrow> x < lo \<or> x > hi | _ \<Rightarrow> False))"

text \<open>
  \<^verbatim>\<open>new Date(`2000-01-01T${t}:00`)\<close>, by the seconds after the midnight the day
  starts with. The time part of the string is \<open>t\<close> followed by \<^verbatim>\<open>:00\<close>; as an ISO
  time it is \<^verbatim>\<open>HH:mm\<close> or \<^verbatim>\<open>HH:mm:ss\<close> in two-digit fields, up to 23:59:59, or
  24:00:00. So \<^verbatim>\<open>06:00\<close> is read as 06:00:00 and a bare \<^verbatim>\<open>09\<close> as 09:00. Every
  other string is taken as an invalid date (\<open>None\<close>), whose comparisons are false;
  the forms beyond ISO that an engine may accept are not modelled.
\<close>

definition two_digits :: "string \<Rightarrow> nat option" where
  "two_digits s = (if length s = 2 then Number s else None)"

definition iso_time :: "string \<Rightarrow> string \<Rightarrow> string \<Rightarrow> nat option" where
  "iso_time hh mm ss =
     (case (two_digits hh, two_digits mm, two_digits ss) of
        (Some h, Some m, Some sec) \<Rightarrow>
          if (h \<le> 23 \<and> m \<le> 59 \<and> sec \<le> 59) \<or> (h = 24 \<and> m = 0 \<and> sec = 0)
          then Some (h * 3600 + m * 60 + sec) else None
      | _ \<Rightarrow> None)"

definition Date_2000 :: "string \<Rightarrow> nat option" where
  "Date_2000 t =
     (case split_str (CHR '':'') (t @ '':00'') of
        [hh, mm] \<Rightarrow> iso_time hh mm ''00''
      | [hh, mm, ss] \<Rightarrow> iso_time hh mm ss
      | _ \<Rightarrow> None)"

definition validateSettings :: "PartialSettings \<Rightarrow> ValidationResult" where
  "validateSettings settings =
     (let errors1 =
            (if \<not> truthy_bool (is_24_7' settings) \<and> truthy_string (opening_time' settings)
                  \<and> truthy_string (closing_time' settings)
             then (case (opening_time' settings, closing_time' settings) of
                     (Some opening, Some closing) \<Rightarrow>
                        (case (Date_2000 opening, Date_2000 closing) of
                           (Some openTime, Some closeTime) \<Rightarrow>
                              if openTime \<ge> closeTime
                              then [''Opening time must be before closing time''] else []
                         | _ \<Rightarrow> [])
                   | _ \<Rightarrow> [])
             else []);
          errors2 = errors1 @
            (if outside (advance_booking_days' settings) 1 30
             then [''Advance booking days must be between 1 and 30''] else []);
          errors3 = errors2 @
            (if truthy_number (booking_slot_duration' settings)
                  \<and> booking_slot_duration' settings \<notin> {Some (Num 15), Some (Num 30), Some (Num 60)}
             then [''Booking slot duration must be 15, 30, or 60 minutes''] else []);
          errors4 = errors3 @
            (if truthy_number (min_booking_duration' settings)
                  \<and> truthy_number (max_booking_duration' settings)
             then (case (min_booking_duration' settings, max_booking_duration' settings) of
                     (Some (Num lo), Some (Num hi)) \<Rightarrow>
                        if lo \<ge> hi
                        then [''Minimum booking duration must be less than maximum duration'']
                        else []
                   | _ \<Rightarrow> [])
             else []);
          errors5 = errors4 @
            (if outside (min_booking_duration' settings) (1 / 2) 8
             then [''Minimum booking duration must be between 0.5 and 8 hours''] else []);
          errors6 = errors5 @
            (if outside (max_booking_duration' settings) 1 12
             then [''Maximum booking duration must be between 1 and 12 hours''] else []);
          errors7 = errors6 @
            (if outside (cancellation_deadline' settings) 0 48
             then [''Cancellation deadline must be between 0 and 48 hours''] else [])
      in \<lparr>isValid = (length errors7 = 0), errors = errors7\<rparr>)"

section \<open>Bookings and the booking service\<close>

datatype status = pending | confirmed | canceled | no_show | completed

text \<open>
  The \<^verbatim>\<open>bookings\<close> row type of \<^verbatim>\<open>lib/supabase.ts\<close>. \<open>BookingData\<close> holds the
  columns an insert must give; \<open>Booking\<close> is a stored row and \<open>BookingInsert\<close> the
  argument of an insert, whose \<^verbatim>\<open>id\<close>, \<^verbatim>\<open>status\<close> and \<^verbatim>\<open>total_cost\<close> are
  optional.
\<close>

record BookingData = TimeRange +
  user_id :: string
  game_id :: string
  booking_date :: string
  booking_notes :: "string option"

record Booking = BookingData +
  booking_id :: string
  status :: status
  total_cost :: rat

record BookingInsert = BookingData +
  insert_id :: "string option"
  insert_status :: "status option"
  insert_total_cost :: "rat option"

text \<open>
  A failed call gives \<^verbatim>\<open>{ data: null, error }\<close>: the left of a sum. \<open>Error\<close> is
  the \<^verbatim>\<open>Error\<close> the service throws itself, \<open>PostgrestError\<close> whatever the storage
  client reports.
\<close>

datatype error = Error string | PostgrestError string

text \<open>
  What the storage does in one call is an input of the model: whether the remote
  procedure call or the insert fails (and with what), and the values the database gives
  the columns that the insert leaves out. The definition of the \<^verbatim>\<open>bookings\<close> table is
  not among the sources, so its defaults and its constraints are not fixed here: a
  constraint that rejects a row is an \<open>insert_fault\<close>.
\<close>

record storage_io =
  rpc_fault :: "error option"
  insert_fault :: "error option"
  generated_id :: string
  default_status :: status
  default_total_cost :: rat

text \<open>
  The SQL function \<^verbatim>\<open>check_booking_conflict\<close> of the migration script. It compares
  the times as \<^verbatim>\<open>TIME\<close> values; the model compares the strings, which is the same
  order on zero-padded \<^verbatim>\<open>HH:MM\<close> times (\<open>timeString_less\<close> below) and on those
  only. The properties below are about such times.
\<close>

definition check_booking_conflict ::
  "Booking list \<Rightarrow> string \<Rightarrow> string \<Rightarrow> string \<Rightarrow> string \<Rightarrow> string option \<Rightarrow> bool" where
  "check_booking_conflict bookings p_game_id p_booking_date p_start_time p_end_time
       p_exclude_booking_id =
     (let conflict_count = length (filter (\<lambda>b.
            game_id b = p_game_id
          \<and> booking_date b = p_booking_date
          \<and> status b \<in> {pending, confirmed}
          \<and> (start_time b < p_end_time \<and> end_time b > p_start_time)
          \<and> (p_exclude_booking_id = None \<or> Some (booking_id b) \<noteq> p_exclude_booking_id))
          bookings)
      in conflict_count > 0)"

text \<open>
  \<^verbatim>\<open>BookingService.checkBookingConflict\<close>: the remote call, and the \<^verbatim>\<open>catch\<close> that
  logs the error and returns \<^verbatim>\<open>false\<close>. \<^verbatim>\<open>excludeBookingId || null\<close> turns the
  empty string into \<^verbatim>\<open>null\<close>.
\<close>

definition checkBookingConflict ::
  "storage_io \<Rightarrow> Booking list \<Rightarrow> string \<Rightarrow> string \<Rightarrow> string \<Rightarrow> string \<Rightarrow> string option \<Rightarrow> bool" where
  "checkBookingConflict io bookings gameId bookingDate startTime endTime excludeBookingId =
     (case rpc_fault io of
        Some err \<Rightarrow> False
      | None \<Rightarrow>
          check_booking_conflict bookings gameId bookingDate startTime endTime
            (if truthy_string excludeBookingId then excludeBookingId else None))"

text \<open>The row the database stores for an insert.\<close>

definition inserted_row :: "storage_io \<Rightarrow> BookingInsert \<Rightarrow> Booking" where
  "inserted_row io bookingData =
     \<lparr>start_time = start_time bookingData, end_time = end_time bookingData,
      user_id = user_id bookingData, game_id = game_id bookingData,
      booking_date = booking_date bookingData, booking_notes = booking_notes bookingData,
      booking_id = (case insert_id bookingData of Some i \<Rightarrow> i | None \<Rightarrow> generated_id io),
      status = (case insert_status bookingData of Some s \<Rightarrow> s | None \<Rightarrow> default_status io),
      total_cost =
        (case insert_total_cost bookingData of Some c \<Rightarrow> c | None \<Rightarrow> default_total_cost io)\<rparr>"

text \<open>
  \<^verbatim>\<open>BookingService.createBooking\<close>: the result \<^verbatim>\<open>{ data, error }\<close> and the table
  afterwards.
\<close>

definition createBooking ::
  "storage_io \<Rightarrow> Booking list \<Rightarrow> BookingInsert \<Rightarrow> (error + Booking) \<times> Booking list" where
  "createBooking io bookings bookingData =
     (let hasConflict = checkBookingConflict io bookings (game_id bookingData)
            (booking_date bookingData) (start_time bookingData) (end_time bookingData) None
      in if hasConflict then (Inl (Error ''Time slot is already booked''), bookings)
         else (case insert_fault io of
                 Some err \<Rightarrow> (Inl err, bookings)
               | None \<Rightarrow>
                   (let data = inserted_row io bookingData
                    in (Inr data, bookings @ [data]))))"

text \<open>
  The same method cut at its two \<^verbatim>\<open>await\<close>s, where other calls may run: a call
  is about to check, has checked, or has returned. \<open>run\<close> executes a schedule, each
  entry naming the call that takes its next step and what the storage does in it.
\<close>

datatype call = Start BookingInsert | Checked BookingInsert bool | Returned "error + Booking"

fun step_call :: "storage_io \<Rightarrow> Booking list \<Rightarrow> call \<Rightarrow> call \<times> Booking list" where
  "step_call io bookings (Start bookingData) =
     (Checked bookingData
        (checkBookingConflict io bookings (game_id bookingData) (booking_date bookingData)
           (start_time bookingData) (end_time bookingData) None),
      bookings)"
| "step_call io bookings (Checked bookingData hasConflict) =
     (if hasConflict then (Returned (Inl (Error ''Time slot is already booked'')), bookings)
      else (case insert_fault io of
              Some err \<Rightarrow> (Returned (Inl err), bookings)
            | None \<Rightarrow>
                (let data = inserted_row io bookingData
                 in (Returned (Inr data), bookings @ [data]))))"
| "step_call io bookings (Returned r) = (Returned r, bookings)"

fun run :: "(nat \<times> storage_io) list \<Rightarrow> call list \<times> Booking list \<Rightarrow> call list \<times> Booking list" where
  "run [] cfg = cfg"
| "run ((i, io) # schedule) (calls, bookings) =
     (if i < length calls
      then (case step_call io bookings (calls ! i) of
              (c, bookings') \<Rightarrow> run schedule (calls[i := c], bookings'))
      else run schedule (calls, bookings))"

text \<open>
  \<^verbatim>\<open>BookingService.updateBookingStatus\<close>:
  \<^verbatim>\<open>update(updateData).eq('id', bookingId).select(...).single()\<close>. Every row with the id
  is updated; \<^verbatim>\<open>single()\<close> reports an error unless exactly one row comes back.
  The id is the key of the table, so that at most one row has it; the properties below
  are about a table in which one row, or none, has the id.
\<close>

definition updateBookingStatus ::
  "error option \<Rightarrow> Booking list \<Rightarrow> string \<Rightarrow> status \<Rightarrow> string option
     \<Rightarrow> (error + Booking) \<times> Booking list" where
  "updateBookingStatus fault bookings bookingId newStatus newNotes =
     (case fault of
        Some err \<Rightarrow> (Inl err, bookings)
      | None \<Rightarrow>
          (let updated = map (\<lambda>b.
                 if booking_id b = bookingId
                 then b\<lparr>status := newStatus,
                        booking_notes :=
                          (case newNotes of None \<Rightarrow> booking_notes b | Some n \<Rightarrow> Some n)\<rparr>
                 else b) bookings
           in (case filter (\<lambda>b. booking_id b = bookingId) updated of
                 [data] \<Rightarrow> (Inr data, updated)
               | _ \<Rightarrow> (Inl (PostgrestError ''PGRST116''), updated))))"

text \<open>
  The wrappers of \<^verbatim>\<open>updateBookingStatus\<close>; \<open>or_else\<close> is
  \<^verbatim>\<open>x || 'default'\<close> on an optional string.
\<close>

definition or_else :: "string option \<Rightarrow> string \<Rightarrow> string" where
  "or_else v d = (case v of Some s \<Rightarrow> if s \<noteq> [] then s else d | None \<Rightarrow> d)"

definition cancelBooking ::
  "error option \<Rightarrow> Booking list \<Rightarrow> string \<Rightarrow> string option
     \<Rightarrow> (error + Booking) \<times> Booking list" where
  "cancelBooking fault bookings bookingId reason =
     updateBookingStatus fault bookings bookingId canceled reason"

definition confirmBooking ::
  "error option \<Rightarrow> Booking list \<Rightarrow> string \<Rightarrow> (error + Booking) \<times> Booking list" where
  "confirmBooking fault bookings bookingId =
     updateBookingStatus fault bookings bookingId confirmed None"

definition markNoShow ::
  "error option \<Rightarrow> Booking list \<Rightarrow> string \<Rightarrow> string option
     \<Rightarrow> (error + Booking) \<times> Booking list" where
  "markNoShow fault bookings bookingId newNotes =
     updateBookingStatus fault bookings bookingId no_show
       (Some (or_else newNotes ''Customer did not show up''))"

definition markCompleted ::
  "error option \<Rightarrow> Booking list \<Rightarrow> string \<Rightarrow> string option
     \<Rightarrow> (error + Booking) \<times> Booking list" where
  "markCompleted fault bookings bookingId newNotes =
     updateBookingStatus fault bookings bookingId completed
       (Some (or_else newNotes ''Booking completed successfully''))"

definition adminCancelBooking ::
  "error option \<Rightarrow> Booking list \<Rightarrow> string \<Rightarrow> string option
     \<Rightarrow> (error + Booking) \<times> Booking list" where
  "adminCancelBooking fault bookings bookingId reason =
     updateBookingStatus fault bookings bookingId canceled
       (Some (or_else reason ''Cancelled by admin''))"

text \<open>
  The admin bookings page: the buttons it shows for a booking by its status, and the
  service method each handler calls.
\<close>

datatype admin_action = Approve | Reject | MarkCompleted | MarkNoShow | AdminCancel

definition admin_buttons :: "status \<Rightarrow> admin_action list" where
  "admin_buttons s =
     (if s = pending then [Approve, Reject]
      else if s = confirmed then [MarkCompleted, MarkNoShow, AdminCancel]
      else [])"

fun admin_handler ::
  "admin_action \<Rightarrow> error option \<Rightarrow> Booking list \<Rightarrow> string \<Rightarrow> (error + Booking) \<times> Booking list" where
  "admin_handler Approve fault bookings bookingId = confirmBooking fault bookings bookingId"
| "admin_handler Reject fault bookings bookingId =
     cancelBooking fault bookings bookingId (Some ''Rejected by admin'')"
| "admin_handler MarkNoShow fault bookings bookingId = markNoShow fault bookings bookingId None"
| "admin_handler MarkCompleted fault bookings bookingId =
     markCompleted fault bookings bookingId None"
| "admin_handler AdminCancel fault bookings bookingId =
     adminCancelBooking fault bookings bookingId None"

text \<open>
  The admin's transitions as the specification lists them (section 4.5).
\<close>

definition spec_admin_transitions :: "(status \<times> status) set" where
  "spec_admin_transitions =
     {(pending, confirmed), (pending, canceled),
      (confirmed, completed), (confirmed, no_show), (confirmed, canceled)}"

section \<open>The user's bookings page: \<^verbatim>\<open>canCancelBooking\<close>\<close>

text \<open>
  \<^verbatim>\<open>new Date(`${booking_date}T${start_time}`).getTime()\<close> belongs to the JavaScript
  runtime and depends on its time zone; the model takes it as the function \<open>getTime\<close>
  from the string to milliseconds (\<open>None\<close> for an invalid date), and \<open>now\<close> as
  \<^verbatim>\<open>new Date().getTime()\<close>; both are whole numbers of milliseconds, whose difference
  is exact.
\<close>

definition canCancelBooking :: "(string \<Rightarrow> rat option) \<Rightarrow> rat \<Rightarrow> Booking \<Rightarrow> bool" where
  "canCancelBooking getTime now booking =
     (let bookingDateTime = getTime (booking_date booking @ ''T'' @ start_time booking);
          hoursDifference =
            (case bookingDateTime of
               Some t \<Rightarrow> Num (binary64 ((t - now) / (1000 * 60 * 60)))
             | None \<Rightarrow> NaN)
      in status booking = pending \<or>
         (status booking = confirmed \<and> greater_number hoursDifference 2))"

text \<open>
  The rule as the specification words it (section 4.5), with the configured deadline:
  a pending booking may be canceled; a confirmed one only while the time left before its
  start is more than \<open>cancellation_deadline\<close> hours.
\<close>

definition spec_user_may_cancel :: "SystemSettings \<Rightarrow> status \<Rightarrow> rat \<Rightarrow> bool" where
  "spec_user_may_cancel st s hoursBeforeStart =
     (s = pending \<or> (s = confirmed \<and> hoursBeforeStart > cancellation_deadline st))"

section \<open>Rounding to a double\<close>

text \<open>
  \<open>binade\<close> is the exponent it is meant to be, which gives \<open>binary64\<close> once the
  binade of a number is known (\<open>binary64_eqI\<close>, the way a concrete product is
  evaluated below). A whole number below \<open>2 ^ 53\<close> times a power of two is a double.
\<close>

lemma round_even_of_int: "round_even (of_int n) = n"
  by (simp add: round_even_def)

lemma round_even_eqI:
  assumes "of_int n - 1 / 2 < x" "x < of_int n + 1 / 2"
  shows "round_even x = n"
proof (cases "x < of_int n")
  case True
  with assms have f: "\<lfloor>x\<rfloor> = n - 1" by (simp add: floor_eq_iff)
  from assms have "x - of_int (n - 1) > 1 / 2" by simp
  then show ?thesis unfolding round_even_def f by (simp add: Let_def)
next
  case False
  with assms have f: "\<lfloor>x\<rfloor> = n" by (simp add: floor_eq_iff)
  from assms have "x - of_int n < 1 / 2" by simp
  then show ?thesis unfolding round_even_def f by (simp add: Let_def)
qed

lemma binade_bounds:
  assumes "x \<noteq> 0"
  shows "2 powi binade x \<le> \<bar>x\<bar> \<and> \<bar>x\<bar> < 2 powi (binade x + 1)"
proof (cases "\<bar>x\<bar> \<ge> 1")
  case True
  define n where "n = \<lfloor>\<bar>x\<bar>\<rfloor>"
  have npos: "0 < n" using True by (simp add: n_def)
  from bitlen_bounds[OF npos] have b: "2 ^ nat (bitlen n - 1) \<le> n" "n < 2 ^ nat (bitlen n)"
    by simp_all
  have "bitlen n \<noteq> 0" using npos by (simp add: bitlen_eq_zero_iff)
  with bitlen_nonneg[of n] have ge1: "1 \<le> bitlen n" by linarith
  have k: "binade x = bitlen n - 1" using True by (simp add: binade_def n_def)
  have "(2::rat) powi (bitlen n - 1) = 2 ^ nat (bitlen n - 1)"
    using ge1 by (simp add: power_int_def)
  also have "\<dots> = of_int (2 ^ nat (bitlen n - 1))" by simp
  also have "\<dots> \<le> of_int n" using b(1) by (simp only: of_int_le_iff)
  also have "\<dots> \<le> \<bar>x\<bar>" by (simp add: n_def)
  finally have lo: "2 powi binade x \<le> \<bar>x\<bar>" by (simp add: k)
  have "n + 1 \<le> 2 ^ nat (bitlen n)" using b(2) by simp
  then have "(of_int (n + 1) :: rat) \<le> of_int (2 ^ nat (bitlen n))" by (simp only: of_int_le_iff)
  moreover have "\<bar>x\<bar> < of_int (n + 1)"
    unfolding n_def using floor_correct[of "\<bar>x\<bar>"] by blast
  ultimately have "\<bar>x\<bar> < 2 ^ nat (bitlen n)" by simp
  also have "\<dots> = 2 powi (bitlen n)" using ge1 by (simp add: power_int_def)
  finally have hi: "\<bar>x\<bar> < 2 powi (binade x + 1)" by (simp add: k)
  from lo hi show ?thesis by simp
next
  case False
  define y where "y = 1 / \<bar>x\<bar>"
  define c where "c = \<lceil>y\<rceil>"
  have xpos: "0 < \<bar>x\<bar>" using assms by simp
  have y1: "1 < y" using False xpos by (simp add: y_def)
  have c2: "2 \<le> c" using y1 unfolding c_def by (simp add: le_ceiling_iff)
  define j where "j = bitlen (c - 1)"
  have cpos: "0 < c - 1" using c2 by simp
  from bitlen_bounds[OF cpos] have b: "2 ^ nat (j - 1) \<le> c - 1" "c - 1 < 2 ^ nat j"
    by (simp_all add: j_def)
  have "j \<noteq> 0" using cpos unfolding j_def by (simp add: bitlen_eq_zero_iff)
  with bitlen_nonneg[of "c - 1"] have j1: "1 \<le> j" unfolding j_def by linarith
  have k: "binade x = - j" using False by (simp add: binade_def j_def c_def y_def)
  have "c \<le> 2 ^ nat j" using b(2) by simp
  then have "(of_int c :: rat) \<le> of_int (2 ^ nat j)" by (simp only: of_int_le_iff)
  moreover have e: "(of_int ((2::int) ^ nat j) :: rat) = 2 ^ nat j"
    by (simp only: of_int_power of_int_numeral)
  ultimately have "(of_int c :: rat) \<le> 2 ^ nat j" by (simp only:)
  moreover have "y \<le> of_int c" by (simp add: c_def)
  ultimately have yle: "y \<le> 2 ^ nat j" by (rule order_trans[rotated])
  have p: "(2::rat) powi (- j) = 1 / 2 ^ nat j"
    using j1 by (simp add: power_int_def field_simps)
  have "inverse (2 ^ nat j) \<le> inverse y" using yle y1 by (intro le_imp_inverse_le) simp_all
  then have "1 / 2 ^ nat j \<le> 1 / y" by (simp only: inverse_eq_divide)
  also have "1 / y = \<bar>x\<bar>" by (simp add: y_def)
  finally have lo: "2 powi binade x \<le> \<bar>x\<bar>" by (simp add: k p)
  have "(of_int (2 ^ nat (j - 1)) :: rat) \<le> of_int (c - 1)" using b(1) by (simp only: of_int_le_iff)
  moreover have "(of_int ((2::int) ^ nat (j - 1)) :: rat) = 2 ^ nat (j - 1)"
    by (simp only: of_int_power of_int_numeral)
  ultimately have "(2::rat) ^ nat (j - 1) \<le> of_int (c - 1)" by (simp only:)
  moreover have "of_int (c - 1) < y" unfolding c_def using ceiling_correct[of y] by simp
  ultimately have ylt: "2 ^ nat (j - 1) < y" by (rule le_less_trans)
  have q: "(2::rat) powi (1 - j) = 1 / 2 ^ nat (j - 1)"
  proof -
    have "(2::rat) powi (- (j - 1)) = 1 / 2 powi (j - 1)" by (rule power_int_minus_divide)
    moreover have "(2::rat) powi (j - 1) = 2 ^ nat (j - 1)" using j1 by (simp add: power_int_def)
    moreover have "- (j - 1) = 1 - j" by simp
    ultimately show ?thesis by (simp only:)
  qed
  have "inverse y < inverse (2 ^ nat (j - 1))" using ylt by (intro less_imp_inverse_less) simp_all
  then have "1 / y < 1 / 2 ^ nat (j - 1)" by (simp only: inverse_eq_divide)
  then have hi: "\<bar>x\<bar> < 2 powi (binade x + 1)" by (simp add: k q y_def)
  from lo hi show ?thesis by simp
qed

lemma binade_unique:
  fixes y :: rat
  assumes "2 powi k \<le> y" "y < 2 powi (k + 1)" "2 powi l \<le> y" "y < 2 powi (l + 1)"
  shows "k = l"
proof (rule ccontr)
  assume "k \<noteq> l"
  then consider "k + 1 \<le> l" | "l + 1 \<le> k" by linarith
  then show False
  proof cases
    case 1
    then have "(2::rat) powi (k + 1) \<le> 2 powi l" by (intro power_int_increasing) simp_all
    with assms show False by simp
  next
    case 2
    then have "(2::rat) powi (l + 1) \<le> 2 powi k" by (intro power_int_increasing) simp_all
    with assms show False by simp
  qed
qed

lemma binade_eqI:
  assumes "2 powi k \<le> \<bar>x\<bar>" "\<bar>x\<bar> < 2 powi (k + 1)"
  shows "binade x = k"
proof -
  have "(0::rat) < 2 powi k" by simp
  also note assms(1)
  finally have "x \<noteq> 0" by simp
  from binade_bounds[OF this] assms show ?thesis by (meson binade_unique)
qed

lemma binary64_eqI:
  assumes "2 powi k \<le> \<bar>x\<bar>" "\<bar>x\<bar> < 2 powi (k + 1)"
  shows "binary64 x = of_int (round_even (x / 2 powi (k - 52))) * 2 powi (k - 52)"
proof -
  have "(0::rat) < 2 powi k" by simp
  also note assms(1)
  finally have "x \<noteq> 0" by simp
  then show ?thesis by (simp add: binary64_def binade_eqI[OF assms] Let_def)
qed

lemma binary64_int_powi:
  assumes "\<bar>n\<bar> < 2 ^ 53"
  shows "binary64 (of_int n * 2 powi j) = of_int n * 2 powi j"
proof (cases "n = 0")
  case True
  then show ?thesis by (simp add: binary64_def)
next
  case False
  define b where "b = bitlen \<bar>n\<bar> - 1"
  have npos: "0 < \<bar>n\<bar>" using False by simp
  from bitlen_bounds[OF npos] have bb: "2 ^ nat b \<le> \<bar>n\<bar>" "\<bar>n\<bar> < 2 ^ nat (b + 1)"
    by (simp_all add: b_def)
  have "bitlen \<bar>n\<bar> \<noteq> 0" using npos by (simp add: bitlen_eq_zero_iff)
  with bitlen_nonneg[of "\<bar>n\<bar>"] have b0: "0 \<le> b" unfolding b_def by linarith
  have "bitlen \<bar>n\<bar> \<le> 53" using assms by (simp add: bitlen_le_iff_power)
  then have b52: "b \<le> 52" by (simp add: b_def)
  let ?x = "of_int n * (2::rat) powi j"
  have absx: "\<bar>?x\<bar> = of_int \<bar>n\<bar> * 2 powi j" by (simp add: abs_mult)
  have "(2::rat) powi b = of_int (2 ^ nat b)" using b0 by (simp add: power_int_def)
  also have "\<dots> \<le> of_int \<bar>n\<bar>" using bb(1) by (simp only: of_int_le_iff)
  finally have "(2::rat) powi b * 2 powi j \<le> of_int \<bar>n\<bar> * 2 powi j"
    by (intro mult_right_mono) simp_all
  then have lo: "2 powi (b + j) \<le> \<bar>?x\<bar>" by (simp add: absx power_int_add)
  have "(of_int \<bar>n\<bar> :: rat) < of_int (2 ^ nat (b + 1))" using bb(2) by (simp only: of_int_less_iff)
  also have "\<dots> = 2 powi (b + 1)" using b0 by (simp add: power_int_def)
  finally have "of_int \<bar>n\<bar> * 2 powi j < (2::rat) powi (b + 1) * 2 powi j"
    by (intro mult_strict_right_mono) simp_all
  then have hi: "\<bar>?x\<bar> < 2 powi (b + j + 1)"
    by (simp add: absx power_int_add add.assoc add.commute)
  have sc: "?x / 2 powi (b + j - 52) = of_int (n * 2 ^ nat (52 - b))"
  proof -
    have "(2::rat) powi (j - (b + j - 52)) = 2 powi j / 2 powi (b + j - 52)"
      by (rule power_int_diff) simp
    moreover have "j - (b + j - 52) = 52 - b" by simp
    moreover have "(2::rat) powi (52 - b) = 2 ^ nat (52 - b)" using b52 by (simp add: power_int_def)
    ultimately have q: "(2::rat) powi j / 2 powi (b + j - 52) = 2 ^ nat (52 - b)"
      by (simp only:)
    have "?x / 2 powi (b + j - 52) = of_int n * ((2::rat) powi j / 2 powi (b + j - 52))"
      by (rule times_divide_eq_right[symmetric])
    also note q
    finally show ?thesis by (simp only: of_int_mult of_int_power of_int_numeral)
  qed
  have "binary64 ?x = of_int (n * 2 ^ nat (52 - b)) * 2 powi (b + j - 52)"
    unfolding binary64_eqI[OF lo hi] sc round_even_of_int ..
  also have "\<dots> = of_int n * ((2::rat) powi (52 - b) * 2 powi (b + j - 52))"
    using b52 by (simp add: power_int_def)
  also have "(2::rat) powi (52 - b) * 2 powi (b + j - 52) = 2 powi j"
    by (simp add: power_int_add[symmetric])
  finally show ?thesis .
qed

lemma binary64_of_int: "\<bar>n\<bar> < 2 ^ 53 \<Longrightarrow> binary64 (of_int n) = of_int n"
  using binary64_int_powi[of n 0] by simp

lemma binary64_quarters: "\<bar>n\<bar> < 2 ^ 53 \<Longrightarrow> binary64 (of_int n / 4) = of_int n / 4"
  using binary64_int_powi[of n "-2"] by (simp add: power_int_minus_divide)

lemma floor_le_round_even: "\<lfloor>x\<rfloor> \<le> round_even x"
  by (simp add: round_even_def Let_def)

lemma round_even_near: "\<bar>of_int (round_even x) - x\<bar> \<le> 1 / 2"
proof -
  have "of_int \<lfloor>x\<rfloor> \<le> x" "x < of_int \<lfloor>x\<rfloor> + 1" by linarith+
  then show ?thesis by (auto simp: round_even_def Let_def)
qed

lemma binary64_pos:
  assumes "0 < x"
  shows "0 < binary64 x"
proof -
  define k where "k = binade x"
  from assms have nz: "x \<noteq> 0" by simp
  from binade_bounds[OF nz] assms have lo: "2 powi k \<le> x" by (simp add: k_def)
  have e: "(2::rat) powi k = 2 powi (k - 52) * 2 ^ 52"
    using power_int_add[of "2::rat" "k - 52" 52] by simp
  have p: "(0::rat) < 2 powi (k - 52)" by simp
  from lo have "2 ^ 52 * 2 powi (k - 52) \<le> x" by (simp add: e mult.commute)
  then have "2 ^ 52 \<le> x / 2 powi (k - 52)" using p by (simp add: pos_le_divide_eq)
  moreover have "(1::rat) \<le> 2 ^ 52" by simp
  ultimately have "(1::rat) \<le> x / 2 powi (k - 52)" by (rule order_trans[rotated])
  then have "1 \<le> \<lfloor>x / 2 powi (k - 52)\<rfloor>" by (simp add: le_floor_iff)
  with floor_le_round_even[of "x / 2 powi (k - 52)"] have "0 < round_even (x / 2 powi (k - 52))"
    by linarith
  then have "(0::rat) < of_int (round_even (x / 2 powi (k - 52))) * 2 powi (k - 52)"
    using p by simp
  then show ?thesis using nz by (simp add: binary64_def Let_def k_def)
qed

lemma binary64_error: "\<bar>binary64 x - x\<bar> \<le> \<bar>x\<bar> / 2 ^ 53"
proof (cases "x = 0")
  case True
  then show ?thesis by (simp add: binary64_def)
next
  case False
  define k where "k = binade x"
  define u :: rat where "u = 2 powi (k - 52)"
  have p: "0 < u" by (simp add: u_def)
  have b: "binary64 x = of_int (round_even (x / u)) * u"
    using False by (simp add: binary64_def Let_def k_def u_def)
  have "binary64 x - x = (of_int (round_even (x / u)) - x / u) * u"
    using p by (simp add: b left_diff_distrib)
  then have "\<bar>binary64 x - x\<bar> = \<bar>of_int (round_even (x / u)) - x / u\<bar> * u"
    using p by (simp add: abs_mult)
  also have "\<dots> \<le> (1 / 2) * u"
    using round_even_near[of "x / u"] p by (intro mult_right_mono) simp_all
  also have "(1 / 2) * u = 2 powi k / 2 ^ 53"
    using power_int_add[of "2::rat" "k - 52" 52] by (simp add: u_def)
  also have "\<dots> \<le> \<bar>x\<bar> / 2 ^ 53"
    using binade_bounds[OF False] by (simp add: k_def divide_right_mono)
  finally show ?thesis .
qed

section \<open>Properties of the time and date strings\<close>

text \<open>
  A time written by \<open>timeString\<close> reads back as the same minute, and on such strings
  the string order is the order of the minutes; likewise for dates.
\<close>

lemma of_char_digit_char: "d < 10 \<Longrightarrow> of_char (digit_char d) = 48 + d"
  by (simp add: digit_char_def)

lemma is_digit_digit_char: "d < 10 \<Longrightarrow> is_digit (digit_char d)"
  by (simp add: is_digit_def less_eq_char_def of_char_digit_char)

lemma digit_val_digit_char: "d < 10 \<Longrightarrow> digit_val (digit_char d) = d"
  by (simp add: digit_val_def of_char_digit_char)

lemma digit_char_not_colon: "d < 10 \<Longrightarrow> digit_char d \<noteq> CHR '':''"
proof
  assume d: "d < 10" and "digit_char d = CHR '':''"
  then have "of_char (digit_char d) = (of_char (CHR '':'') :: nat)" by simp
  with d show False by (simp add: of_char_digit_char)
qed

lemma digit_char_less: "a < 10 \<Longrightarrow> b < 10 \<Longrightarrow> digit_char a < digit_char b \<longleftrightarrow> a < b"
  by (simp add: less_char_def of_char_digit_char)

lemma digit_char_eq: "a < 10 \<Longrightarrow> b < 10 \<Longrightarrow> digit_char a = digit_char b \<longleftrightarrow> a = b"
  by (metis digit_val_digit_char)

lemma pad2: "h < 100 \<Longrightarrow> padStart 2 (CHR ''0'') (toString h) = [digit_char (h div 10), digit_char (h mod 10)]"
proof (cases "h < 10")
  case True
  have "digit_char 0 = CHR ''0''" by code_simp
  with True show ?thesis by (simp add: toString.simps padStart_def)
next
  case False
  assume "h < 100"
  with False have "h div 10 < 10" by simp
  with False show ?thesis
    by (simp add: toString.simps[of h] toString.simps[of "h div 10"] padStart_def)
qed

lemma timeString_chars:
  "m < 6000 \<Longrightarrow> timeString m =
     [digit_char (m div 60 div 10), digit_char (m div 60 mod 10), CHR '':'',
      digit_char (m mod 60 div 10), digit_char (m mod 60 mod 10)]"
proof -
  assume "m < 6000"
  then have "m div 60 < 100" by simp
  moreover have "m mod 60 < 100" by (simp add: less_trans[OF mod_less_divisor])
  ultimately show ?thesis by (simp add: timeString_def pad2 Let_def)
qed

lemma Number_two_digits:
  "a < 10 \<Longrightarrow> b < 10 \<Longrightarrow> Number [digit_char a, digit_char b] = Some (10 * a + b)"
  by (simp add: Number_def is_digit_digit_char digit_val_digit_char)

lemma split_time_chars:
  "a < 10 \<Longrightarrow> b < 10 \<Longrightarrow> c < 10 \<Longrightarrow> d < 10 \<Longrightarrow>
   split_str (CHR '':'') [digit_char a, digit_char b, CHR '':'', digit_char c, digit_char d]
     = [[digit_char a, digit_char b], [digit_char c, digit_char d]]"
  by (simp add: digit_char_not_colon)

lemma totalMinutes_timeString: "m < 6000 \<Longrightarrow> totalMinutes (timeString m) = Some m"
proof -
  assume m: "m < 6000"
  let ?h = "m div 60" and ?n = "m mod 60"
  have b: "?h div 10 < 10" "?h mod 10 < 10" "?n div 10 < 10" "?n mod 10 < 10"
    using m by simp_all
  have "totalMinutes (timeString m) = Some ((10 * (?h div 10) + ?h mod 10) * 60 + (10 * (?n div 10) + ?n mod 10))"
    unfolding timeString_chars[OF m] totalMinutes_def split_time_chars[OF b]
    by (simp add: Number_two_digits b)
  then show ?thesis by simp
qed


lemma less_iff_div_mod:
  fixes x y k :: nat
  assumes "0 < k"
  shows "x < y \<longleftrightarrow> x div k < y div k \<or> (x div k = y div k \<and> x mod k < y mod k)"
proof -
  have x: "x = x div k * k + x mod k" and y: "y = y div k * k + y mod k" by simp_all
  show ?thesis
  proof (cases "x div k = y div k")
    case True
    then show ?thesis using x y by (metis nat_add_left_cancel_less nat_neq_iff)
  next
    case False
    have "x < y \<longleftrightarrow> x div k < y div k"
    proof
      assume "x < y"
      then have "x div k \<le> y div k" by (simp add: div_le_mono)
      with False show "x div k < y div k" by simp
    next
      assume "x div k < y div k"
      show "x < y"
      proof (rule ccontr)
        assume "\<not> x < y"
        then have "y div k \<le> x div k" by (simp add: div_le_mono)
        with \<open>x div k < y div k\<close> show False by simp
      qed
    qed
    with False show ?thesis by simp
  qed
qed

lemma timeString_less: 
  assumes "a < 6000" "b < 6000"
  shows "timeString a < timeString b \<longleftrightarrow> a < b"
proof -
  have ba: "a div 60 div 10 < 10" "a div 60 mod 10 < 10" "a mod 60 div 10 < 10" "a mod 60 mod 10 < 10"
    using assms by simp_all
  have bb: "b div 60 div 10 < 10" "b div 60 mod 10 < 10" "b mod 60 div 10 < 10" "b mod 60 mod 10 < 10"
    using assms by simp_all
  have "timeString a < timeString b \<longleftrightarrow>
     (a div 60 div 10 < b div 60 div 10 \<or> a div 60 div 10 = b div 60 div 10 \<and>
       (a div 60 mod 10 < b div 60 mod 10 \<or> a div 60 mod 10 = b div 60 mod 10 \<and>
         (a mod 60 div 10 < b mod 60 div 10 \<or> a mod 60 div 10 = b mod 60 div 10 \<and>
            a mod 60 mod 10 < b mod 60 mod 10)))"
    unfolding timeString_chars[OF assms(1)] timeString_chars[OF assms(2)]
    by (simp add: digit_char_less digit_char_eq ba bb)
  also have "\<dots> \<longleftrightarrow> 
     (a div 60 < b div 60 \<or> a div 60 = b div 60 \<and> a mod 60 < b mod 60)"
    using less_iff_div_mod[of 10 "a div 60" "b div 60"] less_iff_div_mod[of 10 "a mod 60" "b mod 60"]
    by (metis mod_div_mult_eq zero_less_numeral)
  also have "\<dots> \<longleftrightarrow> a < b"
    using less_iff_div_mod[of 60 a b] by simp
  finally show ?thesis .
qed

lemma append_less_same_length:
  fixes xs ys :: "'a::linorder list"
  assumes "length xs = length ys"
  shows "xs @ us < ys @ vs \<longleftrightarrow> xs < ys \<or> (xs = ys \<and> us < vs)"
  using assms by (induction xs ys rule: list_induct2) auto

lemma pad2_less: "a < 100 \<Longrightarrow> b < 100 \<Longrightarrow>
   padStart 2 (CHR ''0'') (toString a) < padStart 2 (CHR ''0'') (toString b) \<longleftrightarrow> a < b"
proof -
  assume a: "a < 100" and b: "b < 100"
  then have d: "a div 10 < 10" "a mod 10 < 10" "b div 10 < 10" "b mod 10 < 10" by simp_all
  show ?thesis unfolding pad2[OF a] pad2[OF b]
    using less_iff_div_mod[of 10 a b] by (simp add: digit_char_less digit_char_eq d)
qed

lemma pad2_eq: "a < 100 \<Longrightarrow> b < 100 \<Longrightarrow>
   padStart 2 (CHR ''0'') (toString a) = padStart 2 (CHR ''0'') (toString b) \<longleftrightarrow> a = b"
proof -
  assume a: "a < 100" and b: "b < 100"
  then have d: "a div 10 < 10" "a mod 10 < 10" "b div 10 < 10" "b mod 10 < 10" by simp_all
  have "a = b \<longleftrightarrow> a div 10 = b div 10 \<and> a mod 10 = b mod 10"
    by (metis div_mult_mod_eq)
  then show ?thesis unfolding pad2[OF a] pad2[OF b]
    by (simp add: digit_char_eq d)
qed

lemma replicate_2_3: "replicate 2 c = [c, c]" "replicate 3 c = [c, c, c]"
  by (simp_all add: numeral_2_eq_2 numeral_3_eq_3)

lemma pad4: 
  assumes "y < 10000"
  shows "padStart 4 (CHR ''0'') (toString y) =
     padStart 2 (CHR ''0'') (toString (y div 100)) @ padStart 2 (CHR ''0'') (toString (y mod 100))"
proof -
  have z: "digit_char 0 = CHR ''0''" by code_simp
  have hi: "y div 100 < 100" using assms by simp
  have lo: "y mod 100 < 100" by simp
  have r: "padStart 2 (CHR ''0'') (toString (y div 100)) @ padStart 2 (CHR ''0'') (toString (y mod 100))
      = [digit_char (y div 100 div 10), digit_char (y div 100 mod 10),
         digit_char (y mod 100 div 10), digit_char (y mod 100 mod 10)]"
    by (simp add: pad2[OF hi] pad2[OF lo])
  have "y mod 100 = 10 * (y div 10 mod 10) + y mod 10"
    using mod_mult2_eq[of y 10 10] by simp
  then have dm: "y div 10 mod 10 = y mod 100 div 10" "y mod 100 mod 10 = y mod 10"
       "y div 10 div 10 = y div 100"
    by (simp_all add: div_mult2_eq)
  consider (a) "y < 10" | (b) "10 \<le> y" "y < 100" | (c) "100 \<le> y" "y < 1000" | (d) "1000 \<le> y"
    by linarith
  then have "padStart 4 (CHR ''0'') (toString y) =
       [digit_char (y div 100 div 10), digit_char (y div 100 mod 10),
         digit_char (y mod 100 div 10), digit_char (y mod 100 mod 10)]"
  proof cases
    case a
    then show ?thesis by (simp add: toString.simps[of y] padStart_def z replicate_2_3)
  next
    case b
    then have "y div 10 < 10" by simp
    with b show ?thesis
      by (simp add: toString.simps[of y] toString.simps[of "y div 10"] padStart_def z dm replicate_2_3)
  next
    case c
    then have "\<not> y div 10 < 10" "y div 100 < 10" by simp_all
    with c show ?thesis
      by (simp add: toString.simps[of y] toString.simps[of "y div 10"]
            toString.simps[of "y div 100"] padStart_def z dm replicate_2_3)
  next
    case d
    then have "\<not> y div 10 < 10" "\<not> y div 100 < 10" "y div 100 div 10 < 10" 
      using assms by simp_all
    with d show ?thesis
      by (simp add: toString.simps[of y] toString.simps[of "y div 10"]
            toString.simps[of "y div 100"] toString.simps[of "y div 100 div 10"] padStart_def z dm replicate_2_3)
  qed
  with r show ?thesis by simp
qed

lemma length_pad2: "h < 100 \<Longrightarrow> length (padStart 2 (CHR ''0'') (toString h)) = 2"
  by (simp add: pad2)

lemma pad4_less: 
  assumes a: "a < 10000" and b: "b < 10000"
  shows "padStart 4 (CHR ''0'') (toString a) < padStart 4 (CHR ''0'') (toString b) \<longleftrightarrow> a < b"
proof -
  have h: "a div 100 < 100" "b div 100 < 100" "a mod 100 < 100" "b mod 100 < 100"
    using a b by simp_all
  show ?thesis unfolding pad4[OF a] pad4[OF b]
    using less_iff_div_mod[of 100 a b]
    by (simp add: append_less_same_length length_pad2 h pad2_less pad2_eq)
qed

lemma pad4_eq: 
  assumes a: "a < 10000" and b: "b < 10000"
  shows "padStart 4 (CHR ''0'') (toString a) = padStart 4 (CHR ''0'') (toString b) \<longleftrightarrow> a = b"
proof -
  have h: "a div 100 < 100" "b div 100 < 100" "a mod 100 < 100" "b mod 100 < 100"
    using a b by simp_all
  have "a = b \<longleftrightarrow> a div 100 = b div 100 \<and> a mod 100 = b mod 100"
    by (metis div_mult_mod_eq)
  then show ?thesis unfolding pad4[OF a] pad4[OF b]
    by (simp add: length_pad2 h pad2_eq)
qed

lemma length_pad4: "y < 10000 \<Longrightarrow> length (padStart 4 (CHR ''0'') (toString y)) = 4"
  by (simp add: pad4 length_pad2)

lemma toISODate_less:
  assumes "year a < 10000" "year b < 10000" "month a < 100" "month b < 100"
    "day a < 100" "day b < 100"
  shows "toISODate a < toISODate b \<longleftrightarrow> date_less a b"
  unfolding toISODate_def date_less_def
  by (simp add: append_less_same_length length_pad4 length_pad2 assms
        pad4_less pad4_eq pad2_less pad2_eq)

lemma next_day_after: "valid_date d \<Longrightarrow> date_less d (next_day d)"
  by (auto simp: valid_date_def date_less_def next_day_def)

lemma next_day_valid: "valid_date d \<Longrightarrow> valid_date (next_day d)"
  by (auto simp: valid_date_def next_day_def days_in_month_def)

lemma next_day_immediate:
  assumes "valid_date d" "valid_date x" "date_less d x"
  shows "\<not> date_less x (next_day d)"
proof -
  let ?dim = "days_in_month (year d) (month d)"
  from assms(1) have d: "1 \<le> month d" "month d \<le> 12" "1 \<le> day d" "day d \<le> ?dim"
    by (simp_all add: valid_date_def)
  from assms(2) have x: "1 \<le> month x" "month x \<le> 12" "1 \<le> day x"
      "day x \<le> days_in_month (year x) (month x)"
    by (simp_all add: valid_date_def)
  from assms(3) have lt: "year d < year x \<or> (year d = year x \<and>
        (month d < month x \<or> (month d = month x \<and> day d < day x)))"
    by (simp add: date_less_def)
  consider (a) "day d < ?dim" | (b) "\<not> day d < ?dim" "month d < 12"
    | (c) "\<not> day d < ?dim" "\<not> month d < 12" by blast
  then show ?thesis
  proof cases
    case a
    then have "year (next_day d) = year d" "month (next_day d) = month d"
        "day (next_day d) = day d + 1" by (simp_all add: next_day_def)
    with lt show ?thesis unfolding date_less_def by linarith
  next
    case b
    then have n: "year (next_day d) = year d" "month (next_day d) = month d + 1"
        "day (next_day d) = 1" by (simp_all add: next_day_def)
    from b d have "day d = ?dim" by simp
    with lt x have "year d < year x \<or> (year d = year x \<and> month d < month x)"
      by (metis leD)
    with n x show ?thesis unfolding date_less_def by linarith
  next
    case c
    then have n: "year (next_day d) = year d + 1" "month (next_day d) = 1"
        "day (next_day d) = 1" by (simp_all add: next_day_def)
    from c d have "day d = ?dim" "month d = 12" by simp_all
    with lt x have "year d < year x"
      by (metis leD)
    with n x show ?thesis unfolding date_less_def by linarith
  qed
qed

section \<open>The loop of \<^verbatim>\<open>generateTimeOptions\<close>\<close>

text \<open>
  With a positive slot the loop returns, and its result is known in closed form; with a
  slot of 0 and a start below the end it never returns.
\<close>

lemma slot_count_step:
  fixes m e slot :: nat
  assumes "0 < slot" "m < e"
  shows "(e - m + slot - 1) div slot = Suc ((e - (m + slot) + slot - 1) div slot)"
proof (cases "m + slot \<le> e")
  case True
  then obtain d where e: "e = m + slot + d" by (auto simp: le_iff_add)
  have l: "e - m + slot - 1 = (d + slot - 1) + slot" using assms(1) by (simp add: e)
  have r: "e - (m + slot) + slot - 1 = d + slot - 1" by (simp add: e)
  show ?thesis unfolding l r using assms(1) by (simp only: div_add_self2)
next
  case False
  then have r: "e - (m + slot) + slot - 1 = slot - 1" by simp
  define d where "d = e - m - 1"
  have d: "e - m = Suc d" "d < slot" using False assms by (simp_all add: d_def)
  have l: "e - m + slot - 1 = d + slot" by (simp add: d)
  show ?thesis unfolding l r using d(2) by simp
qed

lemma time_loop_eq:
  assumes "0 < slot"
  shows "time_loop m e slot acc =
           Some (acc @ map (\<lambda>k. timeString (m + k * slot)) [0..<(e - m + slot - 1) div slot])"
using assms proof (induction "e - m" arbitrary: m acc rule: less_induct)
  case less
  show ?case
  proof (cases "m < e")
    case False
    then have "e - m + slot - 1 < slot" using less.prems by simp
    then have "(e - m + slot - 1) div slot = 0" by simp
    with False show ?thesis by (subst time_loop.simps) simp
  next
    case True
    with less.prems have "e - (m + slot) < e - m" by simp
    from less.hyps[OF this less.prems]
    have ih: "time_loop (m + slot) e slot (acc @ [timeString m]) =
        Some ((acc @ [timeString m]) @
          map (\<lambda>k. timeString (m + slot + k * slot)) [0..<(e - (m + slot) + slot - 1) div slot])" .
    have "time_loop m e slot acc = time_loop (m + slot) e slot (acc @ [timeString m])"
      using True by (subst time_loop.simps) simp
    also note ih
    finally have eq: "time_loop m e slot acc =
        Some (acc @ timeString m #
          map (\<lambda>k. timeString (m + slot + k * slot)) [0..<(e - (m + slot) + slot - 1) div slot])"
      by simp
    let ?n = "(e - (m + slot) + slot - 1) div slot"
    have "map (\<lambda>k. timeString (m + k * slot)) [0..<Suc ?n] =
            timeString (m + 0 * slot) # map (\<lambda>k. timeString (m + Suc k * slot)) [0..<?n]"
      by (rule map_upt_Suc)
    also have "\<dots> = timeString m # map (\<lambda>k. timeString (m + slot + k * slot)) [0..<?n]"
      by (simp add: add.assoc)
    finally show ?thesis
      unfolding eq slot_count_step[OF less.prems True] by simp
  qed
qed

lemma slot_count_less:
  fixes d slot k :: nat
  assumes "0 < slot"
  shows "k < (d + slot - 1) div slot \<longleftrightarrow> k * slot < d"
proof -
  have "k < (d + slot - 1) div slot \<longleftrightarrow> Suc k \<le> (d + slot - 1) div slot" by auto
  also have "\<dots> \<longleftrightarrow> Suc k * slot \<le> d + slot - 1"
    using assms by (simp only: less_eq_div_iff_mult_less_eq)
  also have "\<dots> \<longleftrightarrow> k * slot < d" using assms by auto
  finally show ?thesis .
qed

lemma time_loop_Some_slot:
  assumes "time_loop m e slot acc = Some ys"
  shows "slot = 0 \<longrightarrow> \<not> m < e"
  using assms
proof (induction m e slot acc ys rule: time_loop.raw_induct)
  case (1 loop m e slot acc ys)
  show ?case
  proof (intro impI notI)
    assume z: "slot = 0" and lt: "m < e"
    from 1 lt have a: "loop (m + slot) e slot (acc @ [timeString m]) = Some ys" by simp
    have t: "time_loop m e slot acc = Some ys" by fact
    from t lt have b: "time_loop (m + slot) e slot (acc @ [timeString m]) = Some ys"
      by (subst (asm) time_loop.simps) simp
    have "slot = 0 \<longrightarrow> \<not> m + slot < e" using a b by (rule 1)
    with z lt show False by simp
  qed
qed (rule assms)

lemma time_loop_never_returns:
  assumes "m < e"
  shows "time_loop m e 0 acc = None"
proof (cases "time_loop m e 0 acc")
  case None
  then show ?thesis .
next
  case (Some ys)
  from time_loop_Some_slot[OF this] assms show ?thesis by simp
qed

lemma valid_settings_window:
  assumes v: "spec_valid_settings st"
    and lo: "opening_minute st = Some lo" and hi: "closing_minute st = Some hi"
  shows "lo < hi" "hi \<le> 1440" "0 < booking_slot_duration st"
    "generateTimeOptions (Some st) = time_loop lo hi (booking_slot_duration st) []"
    "is_24_7 st \<Longrightarrow> lo = 0 \<and> hi = 1440"
    "\<not> is_24_7 st \<Longrightarrow> totalMinutes (opening_time st) = Some lo
       \<and> totalMinutes (closing_time st) = Some hi"
proof -
  from v have slot: "booking_slot_duration st \<in> {15, 30, 60}" by (simp add: spec_valid_settings_def)
  then show "0 < booking_slot_duration st" by auto
  show "is_24_7 st \<Longrightarrow> lo = 0 \<and> hi = 1440"
    using lo hi by (simp add: opening_minute_def closing_minute_def)
  show "generateTimeOptions (Some st) = time_loop lo hi (booking_slot_duration st) []"
    using lo hi
    by (cases "is_24_7 st")
       (simp_all add: generateTimeOptions_def opening_minute_def closing_minute_def Let_def)
  show "\<not> is_24_7 st \<Longrightarrow> totalMinutes (opening_time st) = Some lo
       \<and> totalMinutes (closing_time st) = Some hi"
    using lo hi by (simp add: opening_minute_def closing_minute_def)
  have w: "lo < hi \<and> hi \<le> 1440"
  proof (cases "is_24_7 st")
    case True
    then show ?thesis using lo hi by (simp add: opening_minute_def closing_minute_def)
  next
    case False
    with lo hi have p: "totalMinutes (opening_time st) = Some lo"
        "totalMinutes (closing_time st) = Some hi"
      by (simp_all add: opening_minute_def closing_minute_def)
    from v False have
      "(case (totalMinutes (opening_time st), totalMinutes (closing_time st)) of
             (Some opening, Some closing) \<Rightarrow> opening < closing \<and> closing \<le> 24 * 60
           | _ \<Rightarrow> False)"
      by (simp add: spec_valid_settings_def)
    with p show ?thesis by simp
  qed
  then show "lo < hi" "hi \<le> 1440" by simp_all
qed

lemma time_options_sorted:
  assumes "0 < slot" and "\<forall>k<n. lo + k * slot < 6000"
  shows "sorted_wrt (<) (map (\<lambda>k. timeString (lo + k * slot)) [0..<n])"
proof -
  have "\<And>i j. i < j \<Longrightarrow> j < n \<Longrightarrow> timeString (lo + i * slot) < timeString (lo + j * slot)"
  proof -
    fix i j assume ij: "i < j" "j < n"
    then have "lo + i * slot < 6000" "lo + j * slot < 6000" using assms(2) by simp_all
    moreover have "lo + i * slot < lo + j * slot" using ij assms(1) by simp
    ultimately show "timeString (lo + i * slot) < timeString (lo + j * slot)"
      using timeString_less[of "lo + i * slot" "lo + j * slot"] by blast
  qed
  then show ?thesis by (simp add: sorted_wrt_iff_nth_less)
qed

text \<open>
  C6. For a valid settings value, with \<open>lo\<close> the opening minute (0 under
  \<open>is_24_7\<close>) and \<open>hi\<close> the closing minute (1440 under \<open>is_24_7\<close>),
  \<^verbatim>\<open>generateTimeOptions\<close> returns a list \<open>xs\<close>: its \<open>k\<close>-th entry is the
  \<^verbatim>\<open>HH:MM\<close> string of minute \<open>lo + k * booking_slot_duration\<close> and reads back as
  that minute, so the entries are spaced exactly one slot apart; every entry is a
  zero-padded \<^verbatim>\<open>HH:MM\<close> below 24:00; the list is not empty,
  starts at the opening time (\<^verbatim>\<open>00:00\<close> under \<open>is_24_7\<close>), is strictly increasing,
  stays strictly below the closing time (\<^verbatim>\<open>24:00\<close> under \<open>is_24_7\<close>) and stops only
  there; under \<open>is_24_7\<close> it has exactly \<open>1440 / booking_slot_duration\<close> entries; and
  with opening 06:00, closing 22:00 and slot 30 its first entry is \<^verbatim>\<open>06:00\<close> and its
  last \<^verbatim>\<open>21:30\<close>.
\<close>

theorem generateTimeOptions_valid_settings:
  assumes v: "spec_valid_settings st"
    and lo: "opening_minute st = Some lo" and hi: "closing_minute st = Some hi"
  shows "\<exists>xs. generateTimeOptions (Some st) = Some xs
     \<and> xs = map (\<lambda>k. timeString (lo + k * booking_slot_duration st)) [0..<length xs]
     \<and> map totalMinutes xs = map (\<lambda>k. Some (lo + k * booking_slot_duration st)) [0..<length xs]
     \<and> (\<forall>t \<in> set xs. is_time_of_day t)
     \<and> xs \<noteq> [] \<and> hd xs = timeString lo
     \<and> (is_24_7 st \<longrightarrow> hd xs = ''00:00'')
     \<and> (\<not> is_24_7 st \<and> is_time_of_day (opening_time st) \<longrightarrow> hd xs = opening_time st)
     \<and> sorted_wrt (<) xs
     \<and> (\<forall>k<length xs. lo + k * booking_slot_duration st < hi)
     \<and> (\<forall>t \<in> set xs. t < timeString hi)
     \<and> (is_24_7 st \<longrightarrow> timeString hi = ''24:00'')
     \<and> (\<not> is_24_7 st \<and> is_time_of_day (closing_time st) \<longrightarrow>
           timeString hi = closing_time st)
     \<and> hi \<le> lo + length xs * booking_slot_duration st
     \<and> (is_24_7 st \<longrightarrow> length xs = 1440 div booking_slot_duration st
                       \<and> length xs * booking_slot_duration st = 1440)
     \<and> (\<not> is_24_7 st \<and> opening_time st = ''06:00'' \<and> closing_time st = ''22:00''
           \<and> booking_slot_duration st = 30 \<longrightarrow> hd xs = ''06:00'' \<and> last xs = ''21:30'')"
proof -
  define slot where "slot = booking_slot_duration st"
  define n where "n = (hi - lo + slot - 1) div slot"
  define xs where "xs = map (\<lambda>k. timeString (lo + k * slot)) [0..<n]"
  note w = valid_settings_window[OF v lo hi, folded slot_def]
  have len: "length xs = n" by (simp add: xs_def)
  have below: "k < n \<longleftrightarrow> lo + k * slot < hi" for k
    using slot_count_less[OF w(3), of k "hi - lo"] w(1) unfolding n_def by auto
  have gen: "generateTimeOptions (Some st) = Some xs"
    unfolding w(4) xs_def n_def using time_loop_eq[OF w(3), of lo hi "[]"] by simp
  have npos: "0 < n" using below[of 0] w(1) by simp
  have small: "k < n \<Longrightarrow> lo + k * slot < 6000" for k using below[of k] w(2) by simp
  have mins: "map totalMinutes xs = map (\<lambda>k. Some (lo + k * slot)) [0..<n]"
    unfolding xs_def by (simp add: totalMinutes_timeString small)
  have canon: "\<forall>t \<in> set xs. is_time_of_day t"
  proof
    fix t assume "t \<in> set xs"
    then obtain k where k: "k < n" "t = timeString (lo + k * slot)" by (auto simp: xs_def)
    from below[of k] k(1) w(2) have "lo + k * slot < 1440" by simp
    with k(2) small[OF k(1)] show "is_time_of_day t"
      by (simp add: is_time_of_day_def totalMinutes_timeString)
  qed
  have ne: "xs \<noteq> []" using npos len by auto
  have hd: "hd xs = timeString lo" unfolding xs_def using npos by (simp add: hd_map upt_rec)
  have t0: "timeString 0 = ''00:00''" by code_simp
  have t24: "timeString 1440 = ''24:00''" by code_simp
  have first0: "is_24_7 st \<longrightarrow> hd xs = ''00:00''"
    using hd w(5) t0 by simp
  have first: "\<not> is_24_7 st \<and> is_time_of_day (opening_time st) \<longrightarrow> hd xs = opening_time st"
    using hd w(6) by (auto simp: is_time_of_day_def)
  have closing24: "is_24_7 st \<longrightarrow> timeString hi = ''24:00''"
    using w(5) t24 by simp
  have closing: "\<not> is_24_7 st \<and> is_time_of_day (closing_time st) \<longrightarrow>
           timeString hi = closing_time st"
    using w(6) by (auto simp: is_time_of_day_def)
  have sorted: "sorted_wrt (<) xs"
    unfolding xs_def using time_options_sorted[OF w(3), of n lo] small by blast
  have under: "\<forall>t \<in> set xs. t < timeString hi"
  proof
    fix t assume "t \<in> set xs"
    then obtain k where k: "k < n" "t = timeString (lo + k * slot)" by (auto simp: xs_def)
    with below[of k] small[of k] w(2) show "t < timeString hi"
      using timeString_less[of "lo + k * slot" hi] by simp
  qed
  have top: "hi \<le> lo + n * slot" using below[of n] by simp
  have full: "is_24_7 st \<longrightarrow> n = 1440 div slot \<and> n * slot = 1440"
  proof
    assume "is_24_7 st"
    with w(5) have "lo = 0" "hi = 1440" by simp_all
    moreover from v have "slot = 15 \<or> slot = 30 \<or> slot = 60"
      by (simp add: spec_valid_settings_def slot_def)
    ultimately show "n = 1440 div slot \<and> n * slot = 1440" unfolding n_def by auto
  qed
  have scenario: "\<not> is_24_7 st \<and> opening_time st = ''06:00'' \<and> closing_time st = ''22:00''
           \<and> slot = 30 \<longrightarrow> hd xs = ''06:00'' \<and> last xs = ''21:30''"
  proof
    assume a: "\<not> is_24_7 st \<and> opening_time st = ''06:00'' \<and> closing_time st = ''22:00''
           \<and> slot = 30"
    have o: "totalMinutes ''06:00'' = Some 360" by code_simp
    have c: "totalMinutes ''22:00'' = Some 1320" by code_simp
    from a lo hi o c have lh: "lo = 360" "hi = 1320"
      by (simp_all add: opening_minute_def closing_minute_def)
    with a have n32: "n = 32" by (simp add: n_def)
    have l: "timeString 1290 = ''21:30''" by code_simp
    have t360: "timeString 360 = ''06:00''" by code_simp
    have "last xs = timeString (lo + (n - 1) * slot)"
      unfolding xs_def using npos by (simp add: last_map)
    with lh n32 a l have "last xs = ''21:30''" by simp
    moreover from hd lh have "hd xs = ''06:00''" by (simp add: t360)
    ultimately show "hd xs = ''06:00'' \<and> last xs = ''21:30''" by simp
  qed
  have shape: "xs = map (\<lambda>k. timeString (lo + k * slot)) [0..<length xs]"
    using len xs_def by simp
  have mins': "map totalMinutes xs = map (\<lambda>k. Some (lo + k * slot)) [0..<length xs]"
    using mins len by simp
  have below': "\<forall>k<length xs. lo + k * slot < hi" using below len by auto
  have top': "hi \<le> lo + length xs * slot" using top len by auto
  have full': "is_24_7 st \<longrightarrow> length xs = 1440 div slot \<and> length xs * slot = 1440"
    using full len by auto
  note facts = gen shape mins' canon ne hd first0 first sorted below' under closing24 closing
    top' full' scenario
  show ?thesis
    by (rule exI[of _ xs]) (intro conjI; (rule facts[unfolded slot_def]))
qed

theorem generateTimeOptions_valid_settings_witness:
  "spec_valid_settings defaultSettings
   \<and> opening_minute defaultSettings = Some 360 \<and> closing_minute defaultSettings = Some 1320
   \<and> (\<exists>xs. generateTimeOptions (Some defaultSettings) = Some xs \<and> hd xs = ''06:00''
          \<and> last xs = ''21:30'' \<and> sorted_wrt (<) xs)
   \<and> spec_valid_settings (defaultSettings\<lparr>is_24_7 := True\<rparr>)
   \<and> (\<exists>xs. generateTimeOptions (Some (defaultSettings\<lparr>is_24_7 := True\<rparr>)) = Some xs
          \<and> hd xs = ''00:00'' \<and> length xs = 48)"
proof -
  have v: "spec_valid_settings defaultSettings" by code_simp
  have lo: "opening_minute defaultSettings = Some 360" by code_simp
  have hi: "closing_minute defaultSettings = Some 1320" by code_simp
  have f: "\<not> is_24_7 defaultSettings \<and> opening_time defaultSettings = ''06:00''
      \<and> closing_time defaultSettings = ''22:00'' \<and> booking_slot_duration defaultSettings = 30"
    by (simp add: defaultSettings_def)
  from generateTimeOptions_valid_settings[OF v lo hi] f
  have day: "\<exists>xs. generateTimeOptions (Some defaultSettings) = Some xs \<and> hd xs = ''06:00''
          \<and> last xs = ''21:30'' \<and> sorted_wrt (<) xs"
    by blast
  let ?st = "defaultSettings\<lparr>is_24_7 := True\<rparr>"
  have v': "spec_valid_settings ?st" by code_simp
  have lo': "opening_minute ?st = Some 0" by (simp add: opening_minute_def)
  have hi': "closing_minute ?st = Some 1440" by (simp add: closing_minute_def)
  have f': "is_24_7 ?st \<and> booking_slot_duration ?st = 30" by (simp add: defaultSettings_def)
  from generateTimeOptions_valid_settings[OF v' lo' hi'] f'
  have "\<exists>xs. generateTimeOptions (Some ?st) = Some xs \<and> hd xs = ''00:00'' \<and> length xs = 48"
    by auto
  with v lo hi day v' show ?thesis by blast
qed

section \<open>Duration and cost\<close>

lemma totalMinutes_Some_nonempty: "totalMinutes t = Some m \<Longrightarrow> t \<noteq> []"
  by (auto simp: totalMinutes_def Number_def)

lemma Math_round_whole: "Math_round (of_int c) = c"
  by (simp add: Math_round_def) linarith

lemma Math_round_eq_iff:
  "Math_round x = c \<longleftrightarrow> of_int c - 1 / 2 \<le> x \<and> x < of_int c + 1 / 2"
  unfolding Math_round_def floor_eq_iff by auto

lemma Math_round_nearest:
  "x - 1 / 2 < of_int (Math_round x) \<and> of_int (Math_round x) \<le> x + 1 / 2"
  unfolding Math_round_def by linarith

text \<open>
  The duration and the cost by the hours \<open>d\<close> that the minutes of the start and of the
  end give (\<open>spec_duration_hours\<close>, the rule of the overnight wrap): the duration is
  the double nearest to \<open>d\<close>, the cost the rounded double nearest to the product of the
  price, as a double, and that duration.
\<close>

lemma calculateDuration_hours:
  assumes s: "totalMinutes startTime = Some s" and e: "totalMinutes endTime = Some e"
    and day: "s < 24 * 60"
  shows "calculateDuration (Some st) startTime endTime =
      Num (if spec_duration_hours (is_24_7 st) s e > 0
           then binary64 (spec_duration_hours (is_24_7 st) s e) else 0)"
proof -
  have ne: "startTime \<noteq> []" "endTime \<noteq> []"
    using s e by (auto dest: totalMinutes_Some_nonempty)
  show ?thesis
    using ne s e day by (auto simp: calculateDuration_def spec_duration_hours_def Let_def)
qed

lemma calculateCost_hours:
  assumes s: "totalMinutes startTime = Some s" and e: "totalMinutes endTime = Some e"
    and day: "s < 24 * 60"
  shows "calculateCost (Some g) (Some st) startTime endTime =
      (if spec_duration_hours (is_24_7 st) s e > 0
       then Math_round (binary64 (binary64 (price_per_hour g)
              * binary64 (spec_duration_hours (is_24_7 st) s e)))
       else 0)"
proof -
  have ne: "startTime \<noteq> []" "endTime \<noteq> []"
    using s e by (auto dest: totalMinutes_Some_nonempty)
  show ?thesis
    using ne binary64_pos[of "spec_duration_hours (is_24_7 st) s e"]
    by (simp add: calculateCost_def calculateDuration_hours[OF s e day])
qed

text \<open>
  A product that is a whole number: the price need not be a double (a sixth of a unit is
  none), and the two roundings each move the result by at most one part in \<open>2 ^ 53\<close>,
  so that \<^verbatim>\<open>Math.round\<close> gives the whole number back up to \<open>2 ^ 50\<close>.
\<close>

lemma Math_round_whole_product:
  assumes c: "p * of_int n = of_int c" and n: "0 < n" and b: "\<bar>c\<bar> \<le> 2 ^ 50"
  shows "Math_round (binary64 (binary64 p * of_int n)) = c"
proof -
  define x where "x = binary64 p * of_int n"
  have np: "(0::rat) < of_int n" using n by simp
  have "x - of_int c = (binary64 p - p) * of_int n" by (simp add: x_def c[symmetric] left_diff_distrib)
  then have "\<bar>x - of_int c\<bar> = \<bar>binary64 p - p\<bar> * of_int n" using np by (simp add: abs_mult)
  also have "\<dots> \<le> (\<bar>p\<bar> / 2 ^ 53) * of_int n"
    using binary64_error[of p] np by (intro mult_right_mono) simp_all
  also have "\<dots> = \<bar>p * of_int n\<bar> / 2 ^ 53" using np by (simp add: abs_mult)
  also have "\<dots> = \<bar>of_int c :: rat\<bar> / 2 ^ 53" by (simp only: c)
  finally have e1: "\<bar>x - of_int c\<bar> \<le> \<bar>of_int c :: rat\<bar> / 2 ^ 53" .
  have cb: "\<bar>of_int c :: rat\<bar> \<le> 2 ^ 50"
  proof -
    have "(of_int \<bar>c\<bar> :: rat) \<le> of_int (2 ^ 50)" using b by (simp only: of_int_le_iff)
    then show ?thesis by simp
  qed
  from e1 cb have e1': "\<bar>x - of_int c\<bar> \<le> 1 / 8" by simp
  then have xb: "\<bar>x\<bar> \<le> 2 ^ 50 + 1 / 8" using cb by linarith
  have "\<bar>binary64 x - x\<bar> \<le> \<bar>x\<bar> / 2 ^ 53" by (rule binary64_error)
  with xb have e2: "\<bar>binary64 x - x\<bar> \<le> 1 / 4" by simp
  from e1' e2 have "\<bar>binary64 x - of_int c\<bar> \<le> 3 / 8" by linarith
  then show ?thesis unfolding x_def[symmetric] Math_round_eq_iff by linarith
qed

text \<open>
  Two products that are not whole: 73 minutes and 1423 minutes at 150 the hour. The
  double nearest to \<open>73 / 60\<close> lies below it, and the product of the doubles,
  \<^verbatim>\<open>182.49999999999997\<close>, below the half that \<open>150 * (73 / 60)\<close> is; likewise
  \<^verbatim>\<open>3557.4999999999995\<close> for \<open>150 * (1423 / 60)\<close>.
\<close>

lemma binary64_73_60: "binary64 (73 / 60) = 5479379546634103 / 4503599627370496"
proof -
  have "binary64 (73 / 60) = of_int (round_even ((73 / 60) / 2 powi (0 - 52))) * 2 powi (0 - 52)"
    by (rule binary64_eqI) simp_all
  also have "round_even ((73 / 60) / 2 powi (0 - 52)) = 5479379546634103"
    by (rule round_even_eqI) (simp_all add: power_int_minus_divide)
  finally show ?thesis by (simp add: power_int_minus_divide)
qed

lemma binary64_150_73_60:
  "binary64 (150 * (5479379546634103 / 4503599627370496))
     = 6421147906211839 / 35184372088832"
proof -
  let ?x = "150 * (5479379546634103 / 4503599627370496) :: rat"
  have "binary64 ?x = of_int (round_even (?x / 2 powi (7 - 52))) * 2 powi (7 - 52)"
    by (rule binary64_eqI) (simp_all add: power_int_minus_divide)
  also have "round_even (?x / 2 powi (7 - 52)) = 6421147906211839"
    by (rule round_even_eqI) (simp_all add: power_int_minus_divide)
  finally show ?thesis by (simp add: power_int_minus_divide)
qed

lemma binary64_1423_60: "binary64 (1423 / 60) = 6675648197654391 / 281474976710656"
proof -
  have "binary64 (1423 / 60) = of_int (round_even ((1423 / 60) / 2 powi (4 - 52))) * 2 powi (4 - 52)"
    by (rule binary64_eqI) (simp_all add: power_int_minus_divide)
  also have "round_even ((1423 / 60) / 2 powi (4 - 52)) = 6675648197654391"
    by (rule round_even_eqI) (simp_all add: power_int_minus_divide)
  finally show ?thesis by (simp add: power_int_minus_divide)
qed

lemma binary64_150_1423_60:
  "binary64 (150 * (6675648197654391 / 281474976710656))
     = 7823025231626239 / 2199023255552"
proof -
  let ?x = "150 * (6675648197654391 / 281474976710656) :: rat"
  have "binary64 ?x = of_int (round_even (?x / 2 powi (11 - 52))) * 2 powi (11 - 52)"
    by (rule binary64_eqI) (simp_all add: power_int_minus_divide)
  also have "round_even (?x / 2 powi (11 - 52)) = 7823025231626239"
    by (rule round_even_eqI) (simp_all add: power_int_minus_divide)
  finally show ?thesis by (simp add: power_int_minus_divide)
qed

text \<open>
  C4. For a start and an end that read as minutes \<open>s\<close> and \<open>e\<close> of the day with
  \<open>e \<le> s\<close>: under \<open>is_24_7\<close> the duration is computed from \<open>e + 1440\<close>, as the
  double nearest to \<open>(e + 1440 - s) / 60\<close>, and the cost is \<^verbatim>\<open>Math.round\<close> of the
  product of the price and that duration, in doubles; without \<open>is_24_7\<close> the duration
  is 0 and the cost is 0. Under \<open>is_24_7\<close>, 23:00 to 05:00 lasts 6 hours and costs
  \<^verbatim>\<open>Math.round\<close> of the price times 6, which is \<open>price * 6\<close> itself whenever that is
  a whole amount (up to \<open>2 ^ 50\<close>).
\<close>

theorem calculateDuration_overnight_wrap:
  assumes s: "totalMinutes startTime = Some s" and e: "totalMinutes endTime = Some e"
    and day: "s < 24 * 60" and le: "e \<le> s"
  shows "(is_24_7 st \<longrightarrow>
            calculateDuration (Some st) startTime endTime
              = Num (binary64 ((rat_of_nat (e + 1440) - rat_of_nat s) / 60))
          \<and> calculateCost (Some g) (Some st) startTime endTime
              = Math_round (binary64 (binary64 (price_per_hour g)
                  * binary64 ((rat_of_nat (e + 1440) - rat_of_nat s) / 60))))
       \<and> (\<not> is_24_7 st \<longrightarrow>
            calculateDuration (Some st) startTime endTime = Num 0
          \<and> calculateCost (Some g) (Some st) startTime endTime = 0)
       \<and> (is_24_7 st \<longrightarrow>
            calculateDuration (Some st) ''23:00'' ''05:00'' = Num 6
          \<and> calculateCost (Some g) (Some st) ''23:00'' ''05:00''
              = Math_round (binary64 (binary64 (price_per_hour g) * 6))
          \<and> (price_per_hour g * 6 = of_int c \<and> \<bar>c\<bar> \<le> 2 ^ 50 \<longrightarrow>
                calculateCost (Some g) (Some st) ''23:00'' ''05:00'' = c))"
proof -
  have ne: "startTime \<noteq> []" "endTime \<noteq> []"
    using s e by (auto dest: totalMinutes_Some_nonempty)
  have wrap: "is_24_7 st \<longrightarrow> calculateDuration (Some st) startTime endTime
              = Num (binary64 ((rat_of_nat (e + 1440) - rat_of_nat s) / 60))"
    using ne s e day le by (simp add: calculateDuration_def)
  have pos: "0 < (rat_of_nat (e + 1440) - rat_of_nat s) / 60"
    using day by simp
  have wrapcost: "is_24_7 st \<longrightarrow> calculateCost (Some g) (Some st) startTime endTime
              = Math_round (binary64 (binary64 (price_per_hour g)
                  * binary64 ((rat_of_nat (e + 1440) - rat_of_nat s) / 60)))"
    using wrap binary64_pos[OF pos] ne by (simp add: calculateCost_def)
  have zero: "\<not> is_24_7 st \<longrightarrow> calculateDuration (Some st) startTime endTime = Num 0"
    using ne s e le by (simp add: calculateDuration_def)
  then have zerocost: "\<not> is_24_7 st \<longrightarrow> calculateCost (Some g) (Some st) startTime endTime = 0"
    using ne by (simp add: calculateCost_def)
  have a: "totalMinutes ''23:00'' = Some 1380" by code_simp
  have b: "totalMinutes ''05:00'' = Some 300" by code_simp
  have b6: "binary64 6 = 6" using binary64_of_int[of 6] by simp
  have six: "is_24_7 st \<longrightarrow> calculateDuration (Some st) ''23:00'' ''05:00'' = Num 6"
    by (simp add: calculateDuration_def a b b6)
  then have sixcost: "is_24_7 st \<longrightarrow>
      calculateCost (Some g) (Some st) ''23:00'' ''05:00''
        = Math_round (binary64 (binary64 (price_per_hour g) * 6))"
    by (simp add: calculateCost_def)
  have "price_per_hour g * 6 = of_int c \<and> \<bar>c\<bar> \<le> 2 ^ 50 \<longrightarrow>
      Math_round (binary64 (binary64 (price_per_hour g) * 6)) = c"
    using Math_round_whole_product[of "price_per_hour g" 6 c] by simp
  with sixcost have whole: "is_24_7 st \<longrightarrow> (price_per_hour g * 6 = of_int c \<and> \<bar>c\<bar> \<le> 2 ^ 50 \<longrightarrow>
                calculateCost (Some g) (Some st) ''23:00'' ''05:00'' = c)"
    by simp
  from wrap wrapcost zero zerocost six sixcost whole show ?thesis by blast
qed

theorem calculateDuration_overnight_wrap_witness:
  "totalMinutes ''00:17'' = Some 17 \<and> totalMinutes ''00:00'' = Some 0
   \<and> (17::nat) < 24 * 60 \<and> (0::nat) \<le> 17
   \<and> calculateDuration (Some (defaultSettings\<lparr>is_24_7 := True\<rparr>)) ''00:17'' ''00:00''
        = Num (6675648197654391 / 281474976710656)
   \<and> calculateCost (Some \<lparr>game_name = ''Tennis'', price_per_hour = 150, max_players = 4\<rparr>)
        (Some (defaultSettings\<lparr>is_24_7 := True\<rparr>)) ''00:17'' ''00:00'' = 3557
   \<and> calculateDuration (Some (defaultSettings\<lparr>is_24_7 := True\<rparr>)) ''23:00'' ''05:00'' = Num 6
   \<and> (150::rat) * 6 = of_int 900 \<and> \<bar>900::int\<bar> \<le> 2 ^ 50
   \<and> calculateCost (Some \<lparr>game_name = ''Tennis'', price_per_hour = 150, max_players = 4\<rparr>)
        (Some (defaultSettings\<lparr>is_24_7 := True\<rparr>)) ''23:00'' ''05:00'' = 900
   \<and> calculateDuration (Some defaultSettings) ''00:17'' ''00:00'' = Num 0
   \<and> calculateCost (Some \<lparr>game_name = ''Tennis'', price_per_hour = 150, max_players = 4\<rparr>)
        (Some defaultSettings) ''00:17'' ''00:00'' = 0"
proof -
  let ?g = "\<lparr>game_name = ''Tennis'', price_per_hour = 150, max_players = 4\<rparr>"
  define x :: rat where "x = 6675648197654391 / 281474976710656"
  define y :: rat where "y = 7823025231626239 / 2199023255552"
  have s: "totalMinutes ''00:17'' = Some 17" by code_simp
  have e: "totalMinutes ''00:00'' = Some 0" by code_simp
  have d: "(17::nat) < 24 * 60" by simp
  have l: "(0::nat) \<le> 17" by simp
  have bx: "binary64 (1423 / 60) = x" unfolding x_def by (rule binary64_1423_60)
  have p150: "binary64 150 = 150" using binary64_of_int[of 150] by simp
  have xy: "binary64 (150 * x) = y" unfolding x_def y_def by (rule binary64_150_1423_60)
  have ry: "Math_round y = 3557" unfolding y_def by (simp add: Math_round_eq_iff)
  from calculateDuration_overnight_wrap[OF s e d l, of "defaultSettings\<lparr>is_24_7 := True\<rparr>" ?g 900]
  have "calculateDuration (Some (defaultSettings\<lparr>is_24_7 := True\<rparr>)) ''00:17'' ''00:00'' = Num x"
    and "calculateCost (Some ?g) (Some (defaultSettings\<lparr>is_24_7 := True\<rparr>)) ''00:17'' ''00:00'' = 3557"
    and "calculateDuration (Some (defaultSettings\<lparr>is_24_7 := True\<rparr>)) ''23:00'' ''05:00'' = Num 6"
    and "calculateCost (Some ?g) (Some (defaultSettings\<lparr>is_24_7 := True\<rparr>)) ''23:00'' ''05:00'' = 900"
    by (simp_all add: bx p150 xy ry)
  moreover from calculateDuration_overnight_wrap[OF s e d l, of defaultSettings ?g 0]
  have "calculateDuration (Some defaultSettings) ''00:17'' ''00:00'' = Num 0"
    and "calculateCost (Some ?g) (Some defaultSettings) ''00:17'' ''00:00'' = 0"
    by (simp_all add: defaultSettings_def)
  ultimately show ?thesis using s e unfolding x_def by simp
qed

text \<open>
  C5 (as amended). For a start and an end that read as minutes \<open>s\<close> and \<open>e\<close> of the
  day (up to 24:00), with \<open>d\<close> the duration in hours by the overnight-wrap rule: the cost is 0 when
  \<open>d\<close> is zero or negative, and otherwise \<^verbatim>\<open>Math.round\<close> (nearest whole unit, a half
  going up) of the double nearest to the product of the price and the duration, each
  taken as the double nearest to it. For a positive whole price and a duration of whole
  quarters of an hour, with a product below \<open>2 ^ 51\<close>, the doubles are exact and the
  cost is \<open>price * d\<close> rounded to the nearest whole unit, a half going up. The cost of an
  interval from \<open>t\<close> to \<open>t\<close> is 0 without \<open>is_24_7\<close>; under \<open>is_24_7\<close> the
  interval wraps to 24 hours and costs the rounded price times 24. At 500 per hour,
  14:00 to 15:30 costs 750.
\<close>

theorem calculateCost_rounding:
  assumes s: "totalMinutes startTime = Some s" and e: "totalMinutes endTime = Some e"
    and day: "s < 24 * 60" and eday: "e \<le> 24 * 60"
  shows "calculateCost (Some g) (Some st) startTime endTime =
           (if spec_duration_hours (is_24_7 st) s e > 0
            then Math_round (binary64 (binary64 (price_per_hour g)
                   * binary64 (spec_duration_hours (is_24_7 st) s e)))
            else 0)
       \<and> (price_per_hour g = of_int p \<and> 0 < p
            \<and> 4 * spec_duration_hours (is_24_7 st) s e = of_int q \<and> 0 < q \<and> p * q < 2 ^ 53 \<longrightarrow>
            calculateCost (Some g) (Some st) startTime endTime
              = Math_round (price_per_hour g * spec_duration_hours (is_24_7 st) s e)
          \<and> price_per_hour g * spec_duration_hours (is_24_7 st) s e - 1 / 2
              < of_int (calculateCost (Some g) (Some st) startTime endTime)
          \<and> of_int (calculateCost (Some g) (Some st) startTime endTime)
              \<le> price_per_hour g * spec_duration_hours (is_24_7 st) s e + 1 / 2)
       \<and> (\<not> is_24_7 st \<longrightarrow> calculateCost (Some g) (Some st) startTime startTime = 0)
       \<and> (is_24_7 st \<longrightarrow>
            calculateCost (Some g) (Some st) startTime startTime
              = Math_round (binary64 (binary64 (price_per_hour g) * 24)))
       \<and> (price_per_hour g = 500 \<longrightarrow>
            calculateCost (Some g) (Some st) ''14:00'' ''15:30'' = 750)"
proof -
  define d where "d = spec_duration_hours (is_24_7 st) s e"
  have cost: "calculateCost (Some g) (Some st) startTime endTime =
           (if d > 0 then Math_round (binary64 (binary64 (price_per_hour g) * binary64 d)) else 0)"
    unfolding d_def by (rule calculateCost_hours[OF s e day])
  have exact: "calculateCost (Some g) (Some st) startTime endTime = Math_round (price_per_hour g * d)"
    if h: "price_per_hour g = of_int p" "0 < p" "4 * d = of_int q" "0 < q" "p * q < 2 ^ 53"
  proof -
    have dq: "d = of_int q / 4" using h(3) by simp
    have dpos: "0 < d" using h(4) by (simp add: dq)
    have "p * 1 \<le> p * q" using h(2,4) by (intro mult_left_mono) simp_all
    then have "p \<le> p * q" by simp
    with h(2,5) have pb: "\<bar>p\<bar> < 2 ^ 53" by linarith
    have "1 * q \<le> p * q" using h(2,4) by (intro mult_right_mono) simp_all
    then have "q \<le> p * q" by simp
    with h(4,5) have qb: "\<bar>q\<bar> < 2 ^ 53" by linarith
    have pqb: "\<bar>p * q\<bar> < 2 ^ 53" using h(2,4,5) by (simp add: abs_mult)
    have "binary64 (of_int p * (of_int q / 4)) = binary64 (of_int (p * q) / 4)" by simp
    also have "\<dots> = of_int (p * q) / 4" by (rule binary64_quarters[OF pqb])
    finally have bpq: "binary64 (of_int p * (of_int q / 4)) = of_int p * (of_int q / 4)" by simp
    have "calculateCost (Some g) (Some st) startTime endTime
            = Math_round (binary64 (binary64 (of_int p) * binary64 (of_int q / 4)))"
      unfolding cost h(1) dq using dpos[unfolded dq] by (simp only: if_True)
    also have "binary64 (of_int p) = of_int p" by (rule binary64_of_int[OF pb])
    also have "binary64 (of_int q / 4) = of_int q / 4" by (rule binary64_quarters[OF qb])
    also have "binary64 (of_int p * (of_int q / 4)) = of_int p * (of_int q / 4)" by (rule bpq)
    finally show ?thesis unfolding h(1) dq .
  qed
  have near: "price_per_hour g = of_int p \<and> 0 < p \<and> 4 * d = of_int q \<and> 0 < q \<and> p * q < 2 ^ 53 \<longrightarrow>
            calculateCost (Some g) (Some st) startTime endTime = Math_round (price_per_hour g * d)
          \<and> price_per_hour g * d - 1 / 2
              < of_int (calculateCost (Some g) (Some st) startTime endTime)
          \<and> of_int (calculateCost (Some g) (Some st) startTime endTime)
              \<le> price_per_hour g * d + 1 / 2"
  proof (intro impI, elim conjE)
    assume h: "price_per_hour g = of_int p" "0 < p" "4 * d = of_int q" "0 < q" "p * q < 2 ^ 53"
    show "calculateCost (Some g) (Some st) startTime endTime = Math_round (price_per_hour g * d)
          \<and> price_per_hour g * d - 1 / 2
              < of_int (calculateCost (Some g) (Some st) startTime endTime)
          \<and> of_int (calculateCost (Some g) (Some st) startTime endTime)
              \<le> price_per_hour g * d + 1 / 2"
      unfolding exact[OF h]
      by (intro conjI refl conjunct1[OF Math_round_nearest] conjunct2[OF Math_round_nearest])
  qed
  have ne: "startTime \<noteq> []"
    using s by (auto dest: totalMinutes_Some_nonempty)
  have b24: "binary64 24 = 24" using binary64_of_int[of 24] by simp
  have same: "calculateDuration (Some st) startTime startTime = Num (if is_24_7 st then 24 else 0)"
    using ne s by (simp add: calculateDuration_def b24)
  have same0: "\<not> is_24_7 st \<longrightarrow> calculateCost (Some g) (Some st) startTime startTime = 0"
    using ne by (simp add: calculateCost_def same)
  have same24: "is_24_7 st \<longrightarrow>
      calculateCost (Some g) (Some st) startTime startTime
        = Math_round (binary64 (binary64 (price_per_hour g) * 24))"
    using ne by (simp add: calculateCost_def same)
  have a: "totalMinutes ''14:00'' = Some 840" by code_simp
  have b: "totalMinutes ''15:30'' = Some 930" by code_simp
  have h: "binary64 (3 / 2) = 3 / 2" using binary64_quarters[of 6] by simp
  have p500: "binary64 500 = 500" using binary64_of_int[of 500] by simp
  have p750: "binary64 750 = 750" using binary64_of_int[of 750] by simp
  have "calculateDuration (Some st) ''14:00'' ''15:30'' = Num (3 / 2)"
    by (simp add: calculateDuration_def a b h)
  then have ex: "price_per_hour g = 500 \<longrightarrow>
            calculateCost (Some g) (Some st) ''14:00'' ''15:30'' = 750"
    by (simp add: calculateCost_def p500 p750 Math_round_eq_iff)
  from cost near same0 same24 ex show ?thesis unfolding d_def by blast
qed

theorem calculateCost_rounding_witness:
  "totalMinutes ''14:00'' = Some 840 \<and> totalMinutes ''14:45'' = Some 885
   \<and> (840::nat) < 24 * 60 \<and> (885::nat) \<le> 24 * 60
   \<and> (150::rat) = of_int 150 \<and> (0::int) < 150
   \<and> 4 * spec_duration_hours False 840 885 = of_int 3 \<and> (0::int) < 3 \<and> (150::int) * 3 < 2 ^ 53
   \<and> calculateCost (Some \<lparr>game_name = ''Tennis'', price_per_hour = 150, max_players = 4\<rparr>)
        (Some defaultSettings) ''14:00'' ''14:45'' = 113
   \<and> calculateCost (Some \<lparr>game_name = ''Tennis'', price_per_hour = 150, max_players = 4\<rparr>)
        (Some defaultSettings) ''14:00'' ''14:00'' = 0"
proof -
  let ?g = "\<lparr>game_name = ''Tennis'', price_per_hour = 150, max_players = 4\<rparr>"
  have s: "totalMinutes ''14:00'' = Some 840" by code_simp
  have e: "totalMinutes ''14:45'' = Some 885" by code_simp
  have d: "(840::nat) < 24 * 60" by simp
  have d': "(885::nat) \<le> 24 * 60" by simp
  have f: "is_24_7 defaultSettings = False" by (simp add: defaultSettings_def)
  have q: "4 * spec_duration_hours False 840 885 = of_int 3" by (simp add: spec_duration_hours_def)
  have r: "Math_round (150 * spec_duration_hours False 840 885) = 113"
    by (simp add: spec_duration_hours_def Math_round_eq_iff)
  from calculateCost_rounding[OF s e d d', of ?g defaultSettings 150 3]
  have "calculateCost (Some ?g) (Some defaultSettings) ''14:00'' ''14:45'' = 113"
    and "calculateCost (Some ?g) (Some defaultSettings) ''14:00'' ''14:00'' = 0"
    using q r by (simp_all add: f)
  with s e q show ?thesis by simp
qed

theorem calculateCost_rounding_counterexample:
  "calculateCost (Some \<lparr>game_name = ''Cricket'', price_per_hour = 500, max_players = 22\<rparr>)
        (Some (defaultSettings\<lparr>is_24_7 := True\<rparr>)) ''10:00'' ''10:00'' = 12000
   \<and> calculateCost (Some \<lparr>game_name = ''Tennis'', price_per_hour = 150, max_players = 4\<rparr>)
        (Some defaultSettings) ''10:00'' ''11:13'' = 182
   \<and> spec_duration_hours False 600 673 = 73 / 60
   \<and> Math_round (150 * (73 / 60)) = 183"
proof -
  have t: "totalMinutes ''10:00'' = Some 600" by code_simp
  have u: "totalMinutes ''11:13'' = Some 673" by code_simp
  have b24: "binary64 24 = 24" using binary64_of_int[of 24] by simp
  have p500: "binary64 500 = 500" using binary64_of_int[of 500] by simp
  have p150: "binary64 150 = 150" using binary64_of_int[of 150] by simp
  have p12000: "binary64 12000 = 12000" using binary64_of_int[of 12000] by simp
  have c1: "calculateCost (Some \<lparr>game_name = ''Cricket'', price_per_hour = 500, max_players = 22\<rparr>)
        (Some (defaultSettings\<lparr>is_24_7 := True\<rparr>)) ''10:00'' ''10:00'' = 12000"
    by (simp add: calculateCost_def calculateDuration_def t b24 p500 p12000 Math_round_eq_iff)
  define x :: rat where "x = 5479379546634103 / 4503599627370496"
  define y :: rat where "y = 6421147906211839 / 35184372088832"
  have xpos: "0 < x" by (simp add: x_def)
  have d: "calculateDuration (Some defaultSettings) ''10:00'' ''11:13'' = Num x"
    unfolding x_def using binary64_73_60 by (simp add: calculateDuration_def t u defaultSettings_def)
  have xy: "binary64 (150 * x) = y" unfolding x_def y_def by (rule binary64_150_73_60)
  have ry: "Math_round y = 182" unfolding y_def by (simp add: Math_round_eq_iff)
  have c2: "calculateCost (Some \<lparr>game_name = ''Tennis'', price_per_hour = 150, max_players = 4\<rparr>)
        (Some defaultSettings) ''10:00'' ''11:13'' = 182"
    by (simp add: calculateCost_def d xpos p150 xy ry)
  have c3: "spec_duration_hours False 600 673 = 73 / 60" by (simp add: spec_duration_hours_def)
  have c4: "Math_round (150 * (73 / 60)) = 183" by (simp add: Math_round_eq_iff)
  from c1 c2 c3 c4 show ?thesis by simp
qed

section \<open>The conflict test of the booking page\<close>

lemma overlap_three_clauses:
  fixes s e s2 e2 :: "'a::linorder"
  assumes "s < e" "s2 < e2"
  shows "((s \<ge> s2 \<and> s < e2) \<or> (e > s2 \<and> e \<le> e2) \<or> (s \<le> s2 \<and> e \<ge> e2))
           \<longleftrightarrow> (s < e2 \<and> s2 < e)"
  using assms by (meson leD leI less_le_trans le_less_trans less_trans order.strict_implies_order)

text \<open>
  Where the test is right. For a candidate with \<open>startTime < endTime\<close> and existing
  bookings that each start before they end, the page's conflict test (in
  \<^verbatim>\<open>isTimeSlotAvailable\<close> and in \<^verbatim>\<open>validateTimeSelection\<close>, once the duration
  checks have passed) reports a conflict exactly when some existing booking has
  \<open>startTime < end_time\<close> and \<open>start_time < endTime\<close>; a candidate that only touches
  the boundaries of the bookings is available. The order is the lexicographic order of
  the strings, which on the page's zero-padded times is the order of the clock
  (\<open>timeString_less\<close>).
\<close>

lemma conflict_test_forward_rows:
  assumes "startTime < endTime"
    and "\<forall>b \<in> set existingBookings. start_time b < end_time b"
  shows "(\<not> isTimeSlotAvailable existingBookings startTime endTime \<longleftrightarrow>
            (\<exists>b \<in> set existingBookings. startTime < end_time b \<and> start_time b < endTime))
       \<and> (startTime \<noteq> [] \<longrightarrow>
            (validateTimeSelection (Some st) existingBookings startTime endTime = ConflictsWithExisting
               \<longleftrightarrow> \<not> less_number (calculateDuration (Some st) startTime endTime) (min_booking_duration st)
                 \<and> \<not> greater_number (calculateDuration (Some st) startTime endTime) (max_booking_duration st)
                 \<and> (\<exists>b \<in> set existingBookings. startTime < end_time b \<and> start_time b < endTime)))
       \<and> ((\<forall>b \<in> set existingBookings. endTime = start_time b \<or> startTime = end_time b)
             \<longrightarrow> isTimeSlotAvailable existingBookings startTime endTime)"
proof -
  have eq: "\<And>b. b \<in> set existingBookings \<Longrightarrow>
     ((startTime \<ge> start_time b \<and> startTime < end_time b) \<or>
      (endTime > start_time b \<and> endTime \<le> end_time b) \<or>
      (startTime \<le> start_time b \<and> endTime \<ge> end_time b))
     \<longleftrightarrow> (startTime < end_time b \<and> start_time b < endTime)"
    using assms overlap_three_clauses by blast
  then have ex: "list_ex (\<lambda>booking.
          (startTime \<ge> start_time booking \<and> startTime < end_time booking) \<or>
          (endTime > start_time booking \<and> endTime \<le> end_time booking) \<or>
          (startTime \<le> start_time booking \<and> endTime \<ge> end_time booking)) existingBookings
      \<longleftrightarrow> (\<exists>b \<in> set existingBookings. startTime < end_time b \<and> start_time b < endTime)"
    by (auto simp: list_ex_iff)
  have a: "\<not> isTimeSlotAvailable existingBookings startTime endTime \<longleftrightarrow>
            (\<exists>b \<in> set existingBookings. startTime < end_time b \<and> start_time b < endTime)"
    unfolding isTimeSlotAvailable_def ex by simp
  have ne: "endTime \<noteq> []" using assms(1) by auto
  have b: "startTime \<noteq> [] \<longrightarrow>
            (validateTimeSelection (Some st) existingBookings startTime endTime = ConflictsWithExisting
               \<longleftrightarrow> \<not> less_number (calculateDuration (Some st) startTime endTime) (min_booking_duration st)
                 \<and> \<not> greater_number (calculateDuration (Some st) startTime endTime) (max_booking_duration st)
                 \<and> (\<exists>b \<in> set existingBookings. startTime < end_time b \<and> start_time b < endTime))"
    unfolding validateTimeSelection_def ex using ne by (simp add: Let_def)
  have c: "(\<forall>b \<in> set existingBookings. endTime = start_time b \<or> startTime = end_time b)
             \<longrightarrow> isTimeSlotAvailable existingBookings startTime endTime"
    using a by (metis less_irrefl)
  from a b c show ?thesis by blast
qed

text \<open>The scenario of the specification: 10:00 to 12:00 is booked.\<close>

lemma conflict_test_scenario:
  "\<not> isTimeSlotAvailable [\<lparr>start_time = ''10:00'', end_time = ''12:00''\<rparr>] ''09:30'' ''10:30''
   \<and> validateTimeSelection (Some defaultSettings) [\<lparr>start_time = ''10:00'', end_time = ''12:00''\<rparr>]
         ''09:30'' ''10:30'' = ConflictsWithExisting
   \<and> isTimeSlotAvailable [\<lparr>start_time = ''10:00'', end_time = ''12:00''\<rparr>] ''09:00'' ''10:00''"
proof -
  have h1: "''09:30'' < ''10:30''" by code_simp
  have h2: "\<forall>b \<in> set [\<lparr>start_time = ''10:00'', end_time = ''12:00''\<rparr>]. start_time b < end_time b"
    by code_simp
  have h3: "''09:00'' < ''10:00''" by code_simp
  have a: "totalMinutes ''09:30'' = Some 570" by code_simp
  have b: "totalMinutes ''10:30'' = Some 630" by code_simp
  have b1: "binary64 1 = 1" using binary64_of_int[of 1] by simp
  have d: "calculateDuration (Some defaultSettings) ''09:30'' ''10:30'' = Num 1"
    by (simp add: calculateDuration_def a b b1)
  have ov: "''09:30'' < ''12:00'' \<and> ''10:00'' < ''10:30''" by code_simp
  have mm: "min_booking_duration defaultSettings = 1" "max_booking_duration defaultSettings = 4"
    by (simp_all add: defaultSettings_def)
  from conflict_test_forward_rows[OF h1 h2, of defaultSettings]
  have "\<not> isTimeSlotAvailable [\<lparr>start_time = ''10:00'', end_time = ''12:00''\<rparr>] ''09:30'' ''10:30''"
    and "validateTimeSelection (Some defaultSettings) [\<lparr>start_time = ''10:00'', end_time = ''12:00''\<rparr>]
         ''09:30'' ''10:30'' = ConflictsWithExisting"
    using ov by (simp_all add: d less_number_def greater_number_def mm)
  moreover from conflict_test_forward_rows[OF h3 h2, of defaultSettings]
  have "isTimeSlotAvailable [\<lparr>start_time = ''10:00'', end_time = ''12:00''\<rparr>] ''09:00'' ''10:00''"
    by simp
  ultimately show ?thesis by blast
qed

text \<open>
  C2. The claim is that the conflict test reports a conflict exactly when some existing
  booking has \<open>s1 < e2\<close> and \<open>s2 < e1\<close>. Under 24/7 operation the page stores bookings
  that run past midnight, such as 23:00 to 05:00. With that booking existing, the
  candidate 10:00 to 11:00 of the same date has \<open>s1 < e1\<close>, and neither
  \<open>''10:00'' < ''05:00''\<close> nor \<open>''23:00'' < ''11:00''\<close> holds, so by the claim there
  is no conflict. The third clause of the page's test,
  \<^verbatim>\<open>startTime <= booking.start_time && endTime >= booking.end_time\<close>, is true of it:
  \<^verbatim>\<open>isTimeSlotAvailable\<close> answers \<^verbatim>\<open>false\<close>, and \<^verbatim>\<open>validateTimeSelection\<close> sets
  \<^verbatim>\<open>Selected time conflicts with an existing booking\<close>. The SQL function
  \<^verbatim>\<open>check_booking_conflict\<close>, which decides when the booking is created, finds no
  conflict for the same row and candidate.
\<close>

theorem conflict_test_overnight_row:
  "''10:00'' < ''11:00''
   \<and> \<not> (''10:00'' < ''05:00'' \<and> ''23:00'' < ''11:00'')
   \<and> isTimeSlotAvailable [\<lparr>start_time = ''23:00'', end_time = ''05:00''\<rparr>] ''10:00'' ''11:00''
       = False
   \<and> validateTimeSelection (Some (defaultSettings\<lparr>is_24_7 := True\<rparr>))
       [\<lparr>start_time = ''23:00'', end_time = ''05:00''\<rparr>] ''10:00'' ''11:00''
       = ConflictsWithExisting
   \<and> check_booking_conflict
       [\<lparr>start_time = ''23:00'', end_time = ''05:00'', user_id = ''u1'', game_id = ''g1'',
         booking_date = ''2025-06-10'', booking_notes = None, booking_id = ''b1'',
         status = confirmed, total_cost = 3000\<rparr>]
       ''g1'' ''2025-06-10'' ''10:00'' ''11:00'' None = False"
proof -
  have o: "''10:00'' < ''11:00''" "\<not> ''10:00'' < ''05:00''" "\<not> ''23:00'' < ''11:00''"
    "''10:00'' \<le> ''23:00''" "''11:00'' \<ge> ''05:00''" "\<not> ''10:00'' \<ge> ''23:00''"
    "\<not> ''11:00'' \<le> ''05:00''"
    by code_simp+
  have a: "totalMinutes ''10:00'' = Some 600" by code_simp
  have b: "totalMinutes ''11:00'' = Some 660" by code_simp
  have b1: "binary64 1 = 1" using binary64_of_int[of 1] by simp
  have d: "calculateDuration (Some (defaultSettings\<lparr>is_24_7 := True\<rparr>)) ''10:00'' ''11:00'' = Num 1"
    by (simp add: calculateDuration_def a b b1)
  have mm: "min_booking_duration (defaultSettings\<lparr>is_24_7 := True\<rparr>) = 1"
    "max_booking_duration (defaultSettings\<lparr>is_24_7 := True\<rparr>) = 4"
    by (simp_all add: defaultSettings_def)
  have c1: "isTimeSlotAvailable [\<lparr>start_time = ''23:00'', end_time = ''05:00''\<rparr>] ''10:00'' ''11:00''
       = False"
    using o by (simp add: isTimeSlotAvailable_def)
  have c2: "validateTimeSelection (Some (defaultSettings\<lparr>is_24_7 := True\<rparr>))
       [\<lparr>start_time = ''23:00'', end_time = ''05:00''\<rparr>] ''10:00'' ''11:00''
       = ConflictsWithExisting"
    unfolding validateTimeSelection_def using o
    by (simp add: d mm less_number_def greater_number_def Let_def)
  have c3: "check_booking_conflict
       [\<lparr>start_time = ''23:00'', end_time = ''05:00'', user_id = ''u1'', game_id = ''g1'',
         booking_date = ''2025-06-10'', booking_notes = None, booking_id = ''b1'',
         status = confirmed, total_cost = 3000\<rparr>]
       ''g1'' ''2025-06-10'' ''10:00'' ''11:00'' None = False"
    using o by (simp add: check_booking_conflict_def)
  from o(1,2,3) c1 c2 c3 show ?thesis by simp
qed

section \<open>The earliest date of the booking form\<close>

text \<open>
  Where \<^verbatim>\<open>getMinDate\<close> is right: as long as the local date is the UTC date, both now
  and at the same local time of the next day (in the zone of UTC at any time, east of
  it from the local time \<open>offset\<close> on, west of it until the local time
  \<open>24:00 - offset\<close>). Then with \<open>is_24_7\<close> it is the date of today, and without it,
  or with no settings loaded, the date of the next calendar day, which is a valid date,
  comes after today with no date in between, and is the greater \<^verbatim>\<open>YYYY-MM-DD\<close>
  string.
\<close>

lemma setDate_next_same_date:
  assumes "0 \<le> int (minute_of_day now) + offset_now zone"
    and "int (minute_of_day now) + offset_now zone < 1440"
    and "0 \<le> int (minute_of_day now) + offset_now zone - offset_next_day zone"
    and "int (minute_of_day now) + offset_now zone - offset_next_day zone < 1440"
  shows "date_part (local_time zone now) = date_part now"
    and "date_part (setDate_next zone now) = next_day (date_part now)"
  using assms by (simp_all add: setDate_next_def local_time_def shift_minutes_def Let_def)

lemma getMinDate_same_date:
  assumes "0 \<le> int (minute_of_day now) + offset_now zone"
    and "int (minute_of_day now) + offset_now zone < 1440"
    and "0 \<le> int (minute_of_day now) + offset_now zone - offset_next_day zone"
    and "int (minute_of_day now) + offset_now zone - offset_next_day zone < 1440"
    and "valid_date (date_part now)" and "year (date_part now) < 9999"
  shows "getMinDate (Some st) zone now
           = toISODate (if is_24_7 st then date_part now else next_day (date_part now))
       \<and> getMinDate None zone now = toISODate (next_day (date_part now))
       \<and> valid_date (next_day (date_part now))
       \<and> date_less (date_part now) (next_day (date_part now))
       \<and> (\<forall>x. valid_date x \<and> date_less (date_part now) x
              \<longrightarrow> \<not> date_less x (next_day (date_part now)))
       \<and> toISODate (date_part now) < toISODate (next_day (date_part now))"
proof -
  define today where "today = date_part now"
  have v: "valid_date today" and y: "year today < 9999" using assms(5,6) by (simp_all add: today_def)
  have bounds: "month today < 100" "day today < 100"
    using v by (auto simp: valid_date_def days_in_month_def split: if_splits)
  have nv: "valid_date (next_day today)" by (rule next_day_valid[OF v])
  then have nbounds: "month (next_day today) < 100" "day (next_day today) < 100"
    by (auto simp: valid_date_def days_in_month_def split: if_splits)
  have ny: "year (next_day today) < 10000" using y by (simp add: next_day_def)
  have lt: "date_less today (next_day today)" by (rule next_day_after[OF v])
  have "toISODate today < toISODate (next_day today)"
    using toISODate_less[of today "next_day today"] bounds nbounds ny y lt by simp
  moreover have "getMinDate (Some st) zone now
      = toISODate (if is_24_7 st then today else next_day today)"
    using setDate_next_same_date(2)[OF assms(1-4)] by (simp add: getMinDate_def today_def)
  moreover have "getMinDate None zone now = toISODate (next_day today)"
    using setDate_next_same_date(2)[OF assms(1-4)] by (simp add: getMinDate_def today_def)
  ultimately show ?thesis
    using nv lt next_day_immediate[OF v] unfolding today_def by blast
qed

text \<open>
  C10. The claim, and the comments of \<^verbatim>\<open>getMinDate\<close> (\<^verbatim>\<open>allow today's bookings\<close>,
  \<^verbatim>\<open>only allow tomorrow onwards\<close>), make the earliest date tomorrow without
  \<open>is_24_7\<close> and today with it. The function moves the date in local time and prints
  the date of UTC. In the zone of Asia/Kolkata, 5 hours 30 minutes east of UTC, at 02:00
  of 2025-06-10 (20:30 of 2025-06-09 in UTC), it returns \<^verbatim>\<open>2025-06-10\<close> without
  \<open>is_24_7\<close>, which is today and not tomorrow \<^verbatim>\<open>2025-06-11\<close>, and
  \<^verbatim>\<open>2025-06-09\<close> with \<open>is_24_7\<close>, which is yesterday.
\<close>

theorem getMinDate_local_date_mismatch:
  "local_time \<lparr>offset_now = 330, offset_next_day = 330\<rparr>
       \<lparr>date_part = \<lparr>year = 2025, month = 6, day = 9\<rparr>, minute_of_day = 1230\<rparr>
     = \<lparr>date_part = \<lparr>year = 2025, month = 6, day = 10\<rparr>, minute_of_day = 120\<rparr>
   \<and> toISODate (next_day \<lparr>year = 2025, month = 6, day = 10\<rparr>) = ''2025-06-11''
   \<and> getMinDate (Some defaultSettings) \<lparr>offset_now = 330, offset_next_day = 330\<rparr>
       \<lparr>date_part = \<lparr>year = 2025, month = 6, day = 9\<rparr>, minute_of_day = 1230\<rparr>
     = ''2025-06-10''
   \<and> getMinDate None \<lparr>offset_now = 330, offset_next_day = 330\<rparr>
       \<lparr>date_part = \<lparr>year = 2025, month = 6, day = 9\<rparr>, minute_of_day = 1230\<rparr>
     = ''2025-06-10''
   \<and> getMinDate (Some (defaultSettings\<lparr>is_24_7 := True\<rparr>))
       \<lparr>offset_now = 330, offset_next_day = 330\<rparr>
       \<lparr>date_part = \<lparr>year = 2025, month = 6, day = 9\<rparr>, minute_of_day = 1230\<rparr>
     = ''2025-06-09''"
proof -
  let ?zone = "\<lparr>offset_now = 330, offset_next_day = 330\<rparr>"
  let ?now = "\<lparr>date_part = \<lparr>year = 2025, month = 6, day = 9\<rparr>, minute_of_day = 1230\<rparr>"
  have dm: "days_in_month 2025 6 = 30" by (simp add: days_in_month_def)
  have l: "local_time ?zone ?now
     = \<lparr>date_part = \<lparr>year = 2025, month = 6, day = 10\<rparr>, minute_of_day = 120\<rparr>"
    by (simp add: local_time_def shift_minutes_def next_day_def dm)
  have n: "next_day \<lparr>year = 2025, month = 6, day = 10\<rparr> = \<lparr>year = 2025, month = 6, day = 11\<rparr>"
    by (simp add: next_day_def dm)
  have p: "prev_day \<lparr>year = 2025, month = 6, day = 11\<rparr> = \<lparr>year = 2025, month = 6, day = 10\<rparr>"
    by (simp add: prev_day_def)
  have t: "setDate_next ?zone ?now
     = \<lparr>date_part = \<lparr>year = 2025, month = 6, day = 10\<rparr>, minute_of_day = 1230\<rparr>"
    unfolding setDate_next_def l by (simp add: n p shift_minutes_def)
  have i11: "toISODate \<lparr>year = 2025, month = 6, day = 11\<rparr> = ''2025-06-11''" by code_simp
  have i10: "toISODate \<lparr>year = 2025, month = 6, day = 10\<rparr> = ''2025-06-10''" by code_simp
  have i9: "toISODate \<lparr>year = 2025, month = 6, day = 9\<rparr> = ''2025-06-09''" by code_simp
  have f: "is_24_7 defaultSettings = False" by (simp add: defaultSettings_def)
  have g1: "getMinDate (Some defaultSettings) ?zone ?now = ''2025-06-10''"
    unfolding getMinDate_def by (simp add: f t i10)
  have g2: "getMinDate None ?zone ?now = ''2025-06-10''"
    unfolding getMinDate_def by (simp add: t i10)
  have g3: "getMinDate (Some (defaultSettings\<lparr>is_24_7 := True\<rparr>)) ?zone ?now = ''2025-06-09''"
    unfolding getMinDate_def by (simp add: i9)
  from l n i11 g1 g2 g3 show ?thesis by (simp only: simp_thms)
qed

section \<open>Validation of settings\<close>

text \<open>
  C7. The specification requires an error for every supplied \<open>min_booking_duration\<close>
  outside [0.5, 8], and the message of the code says the same. The guard
  \<^verbatim>\<open>settings.min_booking_duration && ...\<close> is false for the number 0, so a settings
  value that is the default one except for a minimum duration of 0 is reported valid,
  with no error; the same value with a minimum of 0.25 gets the error, as the rule
  says.
\<close>

theorem validateSettings_zero_minimum_accepted:
  "validateSettings
     \<lparr>opening_time' = Some ''06:00'', closing_time' = Some ''22:00'', is_24_7' = Some False,
      advance_booking_days' = Some (Num 7), require_admin_approval' = Some True,
      booking_slot_duration' = Some (Num 30), min_booking_duration' = Some (Num 0),
      max_booking_duration' = Some (Num 4), cancellation_deadline' = Some (Num 2)\<rparr>
     = \<lparr>isValid = True, errors = []\<rparr>
   \<and> validateSettings
     \<lparr>opening_time' = Some ''06:00'', closing_time' = Some ''22:00'', is_24_7' = Some False,
      advance_booking_days' = Some (Num 7), require_admin_approval' = Some True,
      booking_slot_duration' = Some (Num 30), min_booking_duration' = Some (Num (1 / 4)),
      max_booking_duration' = Some (Num 4), cancellation_deadline' = Some (Num 2)\<rparr>
     = \<lparr>isValid = False,
        errors = [''Minimum booking duration must be between 0.5 and 8 hours'']\<rparr>"
proof -
  have s: "split_str (CHR '':'') ''06:00:00'' = [''06'', ''00'', ''00'']"
    "split_str (CHR '':'') ''22:00:00'' = [''22'', ''00'', ''00'']" by code_simp+
  have n: "two_digits ''06'' = Some 6" "two_digits ''00'' = Some 0" "two_digits ''22'' = Some 22"
    by code_simp+
  have o: "Date_2000 ''06:00'' = Some 21600" unfolding Date_2000_def by (simp add: s n iso_time_def)
  have c: "Date_2000 ''22:00'' = Some 79200" unfolding Date_2000_def by (simp add: s n iso_time_def)
  show ?thesis
    by (simp add: validateSettings_def o c truthy_bool_def truthy_string_def truthy_number_def
          outside_def)
qed

section \<open>Cancellation by the user\<close>

text \<open>
  C8. The specification ties the cancellation of a confirmed booking by its user to the
  configured \<open>cancellation_deadline\<close>; a pending booking may always be canceled.
  \<^verbatim>\<open>canCancelBooking\<close> compares with the constant 2 instead: with a deadline of 24
  hours configured, a confirmed booking that starts in 3 hours is still offered for
  cancellation, which the rule of the specification forbids.
\<close>

theorem canCancelBooking_ignores_deadline:
  "canCancelBooking (\<lambda>s. if s = ''2025-06-10T18:00'' then Some 1749578400000 else None)
     1749567600000
     \<lparr>start_time = ''18:00'', end_time = ''19:00'', user_id = ''u1'', game_id = ''g1'',
      booking_date = ''2025-06-10'', booking_notes = None, booking_id = ''b1'',
      status = confirmed, total_cost = 500\<rparr>
   \<and> \<not> spec_user_may_cancel (defaultSettings\<lparr>cancellation_deadline := 24\<rparr>) confirmed
         ((1749578400000 - 1749567600000) / (1000 * 60 * 60))"
  using binary64_of_int[of 3]
  by (simp add: canCancelBooking_def spec_user_may_cancel_def greater_number_def)

section \<open>Creating a booking\<close>

text \<open>
  C9. The specification requires that a storage failure of the conflict check reaches
  the caller and that no row is inserted then. With the remote call failing,
  \<^verbatim>\<open>checkBookingConflict\<close> answers \<^verbatim>\<open>false\<close> although the stored booking
  overlaps the request (the SQL function would answer true), and \<^verbatim>\<open>createBooking\<close>
  inserts the overlapping row and returns it.
\<close>

theorem createBooking_check_failure_admits_overlap:
  "checkBookingConflict
     \<lparr>rpc_fault = Some (PostgrestError ''network''), insert_fault = None, generated_id = ''b2'',
      default_status = pending, default_total_cost = 0\<rparr>
     [\<lparr>start_time = ''10:00'', end_time = ''12:00'', user_id = ''u1'', game_id = ''g1'',
       booking_date = ''2025-06-10'', booking_notes = None, booking_id = ''b1'',
       status = confirmed, total_cost = 1000\<rparr>]
     ''g1'' ''2025-06-10'' ''10:00'' ''12:00'' None = False
   \<and> check_booking_conflict
     [\<lparr>start_time = ''10:00'', end_time = ''12:00'', user_id = ''u1'', game_id = ''g1'',
       booking_date = ''2025-06-10'', booking_notes = None, booking_id = ''b1'',
       status = confirmed, total_cost = 1000\<rparr>]
     ''g1'' ''2025-06-10'' ''10:00'' ''12:00'' None = True
   \<and> createBooking
     \<lparr>rpc_fault = Some (PostgrestError ''network''), insert_fault = None, generated_id = ''b2'',
      default_status = pending, default_total_cost = 0\<rparr>
     [\<lparr>start_time = ''10:00'', end_time = ''12:00'', user_id = ''u1'', game_id = ''g1'',
       booking_date = ''2025-06-10'', booking_notes = None, booking_id = ''b1'',
       status = confirmed, total_cost = 1000\<rparr>]
     \<lparr>start_time = ''10:00'', end_time = ''12:00'', user_id = ''u2'', game_id = ''g1'',
      booking_date = ''2025-06-10'', booking_notes = None, insert_id = None,
      insert_status = None, insert_total_cost = None\<rparr>
     = (Inr \<lparr>start_time = ''10:00'', end_time = ''12:00'', user_id = ''u2'', game_id = ''g1'',
            booking_date = ''2025-06-10'', booking_notes = None, booking_id = ''b2'',
            status = pending, total_cost = 0\<rparr>,
        [\<lparr>start_time = ''10:00'', end_time = ''12:00'', user_id = ''u1'', game_id = ''g1'',
          booking_date = ''2025-06-10'', booking_notes = None, booking_id = ''b1'',
          status = confirmed, total_cost = 1000\<rparr>,
         \<lparr>start_time = ''10:00'', end_time = ''12:00'', user_id = ''u2'', game_id = ''g1'',
          booking_date = ''2025-06-10'', booking_notes = None, booking_id = ''b2'',
          status = pending, total_cost = 0\<rparr>])"
proof -
  have lt: "''10:00'' < ''12:00''" by code_simp
  show ?thesis
    by (simp add: createBooking_def checkBookingConflict_def check_booking_conflict_def
          inserted_row_def lt Let_def)
qed

lemma createBooking_steps:
  "createBooking io bookings bookingData = (r, bookings') \<longleftrightarrow>
     run [(0, io), (0, io)] ([Start bookingData], bookings) = ([Returned r], bookings')"
  by (auto simp: createBooking_def Let_def split: option.splits)

lemma check_booking_conflict_append:
  assumes "game_id row = g" "booking_date row = d" "status row \<in> {pending, confirmed}"
    "start_time row < e" "s < end_time row"
  shows "check_booking_conflict (bookings @ [row]) g d s e None"
  using assms by (simp add: check_booking_conflict_def)

text \<open>
  C1 (as amended). \<^verbatim>\<open>createBooking\<close> is two storage round trips, the conflict check
  and then the insert (\<open>createBooking_steps\<close>). Take two requests for the same game
  and date whose times are zero-padded \<^verbatim>\<open>HH:MM\<close> times of one day (minutes \<open>a1\<close>
  to \<open>b1\<close> and \<open>a2\<close> to \<open>b2\<close>, up to 24:00), on which the order of the strings
  is the order of the clock, and which overlap by the clock within that day:
  \<open>a1 < b2\<close> and \<open>a2 < b1\<close>. When the first call has created a row that is active,
  the second call, run after it and with a conflict check that does not fail, returns
  the error \<^verbatim>\<open>Time slot is already booked\<close> and inserts nothing. Intervals that run
  past midnight (an end at or before the start, which 24/7 operation stores) do not meet
  \<open>a1 < b2\<close> and \<open>a2 < b1\<close>, and the check does not see them overlap: 23:00 to
  05:00 is created twice in sequence. For calls whose steps interleave the method gives
  no guarantee either: in the schedule of the counterexample both calls check before
  either inserts, and both return a created booking for the same interval.
\<close>

theorem createBooking_sequential_conflict:
  assumes first: "createBooking io1 bookings d1 = (Inr row1, bookings1)"
    and active: "status row1 \<in> {pending, confirmed}"
    and same: "game_id d2 = game_id d1" "booking_date d2 = booking_date d1"
    and times1: "start_time d1 = timeString a1" "end_time d1 = timeString b1"
    and times2: "start_time d2 = timeString a2" "end_time d2 = timeString b2"
    and day: "b1 \<le> 24 * 60" "b2 \<le> 24 * 60"
    and overlap: "a1 < b2" "a2 < b1"
    and ok: "rpc_fault io2 = None"
  shows "bookings1 = bookings @ [row1]
       \<and> createBooking io2 bookings1 d2 = (Inl (Error ''Time slot is already booked''), bookings1)
       \<and> run [(0, io1), (0, io1), (1, io2), (1, io2)] ([Start d1, Start d2], bookings)
            = ([Returned (Inr row1), Returned (Inl (Error ''Time slot is already booked''))],
               bookings1)"
proof -
  from first have ins: "row1 = inserted_row io1 d1" "bookings1 = bookings @ [row1]"
      and nc: "\<not> checkBookingConflict io1 bookings (game_id d1) (booking_date d1)
                   (start_time d1) (end_time d1) None"
      and nf: "insert_fault io1 = None"
    by (auto simp: createBooking_def Let_def split: if_splits option.splits)
  have row: "game_id row1 = game_id d2" "booking_date row1 = booking_date d2"
      "start_time row1 = start_time d1" "end_time row1 = end_time d1"
    using same by (simp_all add: ins(1) inserted_row_def)
  have b: "a1 < 6000" "b1 < 6000" "a2 < 6000" "b2 < 6000" using day overlap by simp_all
  have lt: "start_time d1 < end_time d2" "start_time d2 < end_time d1"
    unfolding times1 times2 using overlap by (simp_all add: timeString_less[OF b(1) b(4)] timeString_less[OF b(3) b(2)])
  have "check_booking_conflict (bookings @ [row1]) (game_id d2) (booking_date d2)
          (start_time d2) (end_time d2) None"
    using row active lt by (intro check_booking_conflict_append) simp_all
  then have c: "checkBookingConflict io2 bookings1 (game_id d2) (booking_date d2)
          (start_time d2) (end_time d2) None"
    using ok by (simp add: checkBookingConflict_def ins(2) truthy_string_def)
  then have second: "createBooking io2 bookings1 d2
      = (Inl (Error ''Time slot is already booked''), bookings1)"
    by (simp add: createBooking_def)
  have "run [(0, io1), (0, io1), (1, io2), (1, io2)] ([Start d1, Start d2], bookings)
            = ([Returned (Inr row1), Returned (Inl (Error ''Time slot is already booked''))],
               bookings1)"
    using nc nf c ins by (simp add: Let_def)
  with ins(2) second show ?thesis by simp
qed

theorem createBooking_sequential_conflict_witness:
  "createBooking
       \<lparr>rpc_fault = None, insert_fault = None, generated_id = ''b1'',
        default_status = pending, default_total_cost = 0\<rparr>
       []
       \<lparr>start_time = ''10:00'', end_time = ''12:00'', user_id = ''u1'', game_id = ''g1'',
        booking_date = ''2025-06-10'', booking_notes = None, insert_id = None,
        insert_status = None, insert_total_cost = None\<rparr>
     = (Inr \<lparr>start_time = ''10:00'', end_time = ''12:00'', user_id = ''u1'', game_id = ''g1'',
             booking_date = ''2025-06-10'', booking_notes = None, booking_id = ''b1'',
             status = pending, total_cost = 0\<rparr>,
        [\<lparr>start_time = ''10:00'', end_time = ''12:00'', user_id = ''u1'', game_id = ''g1'',
          booking_date = ''2025-06-10'', booking_notes = None, booking_id = ''b1'',
          status = pending, total_cost = 0\<rparr>])
   \<and> ''10:00'' = timeString 600 \<and> ''12:00'' = timeString 720
   \<and> ''11:00'' = timeString 660 \<and> ''13:00'' = timeString 780
   \<and> (720::nat) \<le> 24 * 60 \<and> (780::nat) \<le> 24 * 60 \<and> (600::nat) < 780 \<and> (660::nat) < 720
   \<and> createBooking
       \<lparr>rpc_fault = None, insert_fault = None, generated_id = ''b2'',
        default_status = pending, default_total_cost = 0\<rparr>
       [\<lparr>start_time = ''10:00'', end_time = ''12:00'', user_id = ''u1'', game_id = ''g1'',
         booking_date = ''2025-06-10'', booking_notes = None, booking_id = ''b1'',
         status = pending, total_cost = 0\<rparr>]
       \<lparr>start_time = ''11:00'', end_time = ''13:00'', user_id = ''u2'', game_id = ''g1'',
        booking_date = ''2025-06-10'', booking_notes = None, insert_id = None,
        insert_status = None, insert_total_cost = None\<rparr>
     = (Inl (Error ''Time slot is already booked''),
        [\<lparr>start_time = ''10:00'', end_time = ''12:00'', user_id = ''u1'', game_id = ''g1'',
          booking_date = ''2025-06-10'', booking_notes = None, booking_id = ''b1'',
          status = pending, total_cost = 0\<rparr>])"
proof -
  define io1 where "io1 = \<lparr>rpc_fault = None, insert_fault = None, generated_id = ''b1'',
                default_status = pending, default_total_cost = 0\<rparr>"
  define io2 where "io2 = \<lparr>rpc_fault = None, insert_fault = None, generated_id = ''b2'',
                default_status = pending, default_total_cost = 0\<rparr>"
  define d1 where "d1 = \<lparr>start_time = ''10:00'', end_time = ''12:00'', user_id = ''u1'',
              game_id = ''g1'', booking_date = ''2025-06-10'', booking_notes = None,
              insert_id = None, insert_status = None, insert_total_cost = None\<rparr>"
  define d2 where "d2 = \<lparr>start_time = ''11:00'', end_time = ''13:00'', user_id = ''u2'',
              game_id = ''g1'', booking_date = ''2025-06-10'', booking_notes = None,
              insert_id = None, insert_status = None, insert_total_cost = None\<rparr>"
  define row1 where "row1 = \<lparr>start_time = ''10:00'', end_time = ''12:00'', user_id = ''u1'',
                game_id = ''g1'', booking_date = ''2025-06-10'', booking_notes = None,
                booking_id = ''b1'', status = pending, total_cost = 0\<rparr>"
  have first: "createBooking io1 [] d1 = (Inr row1, [row1])"
    by (simp add: createBooking_def checkBookingConflict_def check_booking_conflict_def
          inserted_row_def Let_def io1_def d1_def row1_def truthy_string_def)
  have active: "status row1 \<in> {pending, confirmed}" by (simp add: row1_def)
  have same: "game_id d2 = game_id d1" "booking_date d2 = booking_date d1"
    by (simp_all add: d1_def d2_def)
  have t: "''10:00'' = timeString 600" "''12:00'' = timeString 720"
    "''11:00'' = timeString 660" "''13:00'' = timeString 780"
    by code_simp+
  have times1: "start_time d1 = timeString 600" "end_time d1 = timeString 720"
    using t by (simp_all add: d1_def)
  have times2: "start_time d2 = timeString 660" "end_time d2 = timeString 780"
    using t by (simp_all add: d2_def)
  have day: "(720::nat) \<le> 24 * 60" "(780::nat) \<le> 24 * 60" by simp_all
  have overlap: "(600::nat) < 780" "(660::nat) < 720" by simp_all
  have ok: "rpc_fault io2 = None" by (simp add: io2_def)
  from createBooking_sequential_conflict[OF first active same times1 times2 day overlap ok]
  have second: "createBooking io2 [row1] d2 = (Inl (Error ''Time slot is already booked''), [row1])"
    by simp
  from first second t show ?thesis
    unfolding io1_def io2_def d1_def d2_def row1_def by simp
qed

theorem createBooking_interleaved_counterexample:
  "run [(0, \<lparr>rpc_fault = None, insert_fault = None, generated_id = ''b1'',
              default_status = pending, default_total_cost = 0\<rparr>),
        (1, \<lparr>rpc_fault = None, insert_fault = None, generated_id = ''b2'',
              default_status = pending, default_total_cost = 0\<rparr>),
        (0, \<lparr>rpc_fault = None, insert_fault = None, generated_id = ''b1'',
              default_status = pending, default_total_cost = 0\<rparr>),
        (1, \<lparr>rpc_fault = None, insert_fault = None, generated_id = ''b2'',
              default_status = pending, default_total_cost = 0\<rparr>)]
       ([Start \<lparr>start_time = ''10:00'', end_time = ''12:00'', user_id = ''u1'',
                 game_id = ''g1'', booking_date = ''2025-06-10'', booking_notes = None,
                 insert_id = None, insert_status = None, insert_total_cost = None\<rparr>,
         Start \<lparr>start_time = ''10:00'', end_time = ''12:00'', user_id = ''u2'',
                 game_id = ''g1'', booking_date = ''2025-06-10'', booking_notes = None,
                 insert_id = None, insert_status = None, insert_total_cost = None\<rparr>],
        [])
     = ([Returned (Inr \<lparr>start_time = ''10:00'', end_time = ''12:00'', user_id = ''u1'',
                         game_id = ''g1'', booking_date = ''2025-06-10'', booking_notes = None,
                         booking_id = ''b1'', status = pending, total_cost = 0\<rparr>),
         Returned (Inr \<lparr>start_time = ''10:00'', end_time = ''12:00'', user_id = ''u2'',
                         game_id = ''g1'', booking_date = ''2025-06-10'', booking_notes = None,
                         booking_id = ''b2'', status = pending, total_cost = 0\<rparr>)],
        [\<lparr>start_time = ''10:00'', end_time = ''12:00'', user_id = ''u1'', game_id = ''g1'',
          booking_date = ''2025-06-10'', booking_notes = None, booking_id = ''b1'',
          status = pending, total_cost = 0\<rparr>,
         \<lparr>start_time = ''10:00'', end_time = ''12:00'', user_id = ''u2'', game_id = ''g1'',
          booking_date = ''2025-06-10'', booking_notes = None, booking_id = ''b2'',
          status = pending, total_cost = 0\<rparr>])
   \<and> createBooking
       \<lparr>rpc_fault = None, insert_fault = None, generated_id = ''b2'',
        default_status = pending, default_total_cost = 0\<rparr>
       [\<lparr>start_time = ''23:00'', end_time = ''05:00'', user_id = ''u1'', game_id = ''g1'',
         booking_date = ''2025-06-10'', booking_notes = None, booking_id = ''b1'',
         status = confirmed, total_cost = 3000\<rparr>]
       \<lparr>start_time = ''23:00'', end_time = ''05:00'', user_id = ''u2'', game_id = ''g1'',
        booking_date = ''2025-06-10'', booking_notes = None, insert_id = None,
        insert_status = None, insert_total_cost = Some 3000\<rparr>
     = (Inr \<lparr>start_time = ''23:00'', end_time = ''05:00'', user_id = ''u2'', game_id = ''g1'',
             booking_date = ''2025-06-10'', booking_notes = None, booking_id = ''b2'',
             status = pending, total_cost = 3000\<rparr>,
        [\<lparr>start_time = ''23:00'', end_time = ''05:00'', user_id = ''u1'', game_id = ''g1'',
          booking_date = ''2025-06-10'', booking_notes = None, booking_id = ''b1'',
          status = confirmed, total_cost = 3000\<rparr>,
         \<lparr>start_time = ''23:00'', end_time = ''05:00'', user_id = ''u2'', game_id = ''g1'',
          booking_date = ''2025-06-10'', booking_notes = None, booking_id = ''b2'',
          status = pending, total_cost = 3000\<rparr>])"
proof -
  have o: "\<not> ''23:00'' < ''05:00''" by code_simp
  show ?thesis
    using o
    by (simp add: Let_def createBooking_def checkBookingConflict_def check_booking_conflict_def
          inserted_row_def truthy_string_def)
qed

section \<open>Updating the status of a booking\<close>

lemma filter_id_map_update:
  assumes "\<And>x. booking_id (f x) = booking_id x"
  shows "filter (\<lambda>b. booking_id b = i) (map f bookings)
           = map f (filter (\<lambda>b. booking_id b = i) bookings)"
  by (induction bookings) (simp_all add: assms)

lemma updateBookingStatus_found:
  assumes "filter (\<lambda>x. booking_id x = bookingId) bookings = [b]"
  shows "updateBookingStatus None bookings bookingId newStatus newNotes =
     (Inr (b\<lparr>status := newStatus,
              booking_notes := (case newNotes of None \<Rightarrow> booking_notes b | Some n \<Rightarrow> Some n)\<rparr>),
      map (\<lambda>x. if booking_id x = bookingId
                then x\<lparr>status := newStatus,
                       booking_notes :=
                         (case newNotes of None \<Rightarrow> booking_notes x | Some n \<Rightarrow> Some n)\<rparr>
                else x) bookings)"
proof -
  let ?f = "\<lambda>x. if booking_id x = bookingId
                then x\<lparr>status := newStatus,
                       booking_notes :=
                         (case newNotes of None \<Rightarrow> booking_notes x | Some n \<Rightarrow> Some n)\<rparr>
                else x"
  have id: "\<And>x. booking_id (?f x) = booking_id x" by simp
  have "b \<in> set (filter (\<lambda>x. booking_id x = bookingId) bookings)"
    unfolding assms by simp
  then have b: "booking_id b = bookingId" by simp
  have "filter (\<lambda>x. booking_id x = bookingId) (map ?f bookings) = [?f b]"
    unfolding filter_id_map_update[of ?f, OF id] assms by simp
  then show ?thesis using b by (simp add: updateBookingStatus_def Let_def)
qed

lemma updateBookingStatus_missing:
  assumes "filter (\<lambda>x. booking_id x = bookingId) bookings = []"
  shows "updateBookingStatus None bookings bookingId newStatus newNotes =
     (Inl (PostgrestError ''PGRST116''), bookings)"
proof -
  let ?f = "\<lambda>x. if booking_id x = bookingId
                then x\<lparr>status := newStatus,
                       booking_notes :=
                         (case newNotes of None \<Rightarrow> booking_notes x | Some n \<Rightarrow> Some n)\<rparr>
                else x"
  have id: "\<And>x. booking_id (?f x) = booking_id x" by simp
  have none: "\<forall>x \<in> set bookings. booking_id x \<noteq> bookingId"
    using assms by (simp add: filter_empty_conv)
  then have same: "map ?f bookings = bookings" by (simp add: map_idI)
  have "filter (\<lambda>x. booking_id x = bookingId) (map ?f bookings) = []"
    unfolding filter_id_map_update[of ?f, OF id] assms by simp
  then show ?thesis using same by (simp add: updateBookingStatus_def Let_def)
qed

lemma admin_handler_status:
  assumes "filter (\<lambda>x. booking_id x = bookingId) bookings = [b]"
  shows "\<exists>r. fst (admin_handler a None bookings bookingId) = Inr r \<and>
     status r = (case a of Approve \<Rightarrow> confirmed | Reject \<Rightarrow> canceled
                  | MarkCompleted \<Rightarrow> completed | MarkNoShow \<Rightarrow> no_show
                  | AdminCancel \<Rightarrow> canceled)"
  by (cases a)
     (simp_all add: confirmBooking_def cancelBooking_def markNoShow_def markCompleted_def
        adminCancelBooking_def updateBookingStatus_found[OF assms])

text \<open>
  C3 (as amended). \<^verbatim>\<open>updateBookingStatus\<close> checks no transition: for a booking id
  that is stored once, any requested status is written and returned, whatever the
  current status; the call fails only with the storage's own error, or when no row has
  the id, and then no stored row changes. The table of section 4.5 is kept by the admin
  bookings page: the buttons it shows for a booking lead exactly to the admin
  transitions of the table, and for a canceled, no-show or completed booking it shows
  none. The counterexample is the request completed to confirmed, which the service
  carries out.
\<close>

theorem updateBookingStatus_no_transition_check:
  "(filter (\<lambda>x. booking_id x = bookingId) bookings = [b] \<longrightarrow>
       updateBookingStatus None bookings bookingId newStatus newNotes =
         (Inr (b\<lparr>status := newStatus,
                  booking_notes :=
                    (case newNotes of None \<Rightarrow> booking_notes b | Some n \<Rightarrow> Some n)\<rparr>),
          map (\<lambda>x. if booking_id x = bookingId
                    then x\<lparr>status := newStatus,
                           booking_notes :=
                             (case newNotes of None \<Rightarrow> booking_notes x | Some n \<Rightarrow> Some n)\<rparr>
                    else x) bookings))
   \<and> (filter (\<lambda>x. booking_id x = bookingId) bookings = [] \<longrightarrow>
       updateBookingStatus None bookings bookingId newStatus newNotes =
         (Inl (PostgrestError ''PGRST116''), bookings))
   \<and> updateBookingStatus (Some err) bookings bookingId newStatus newNotes = (Inl err, bookings)
   \<and> (filter (\<lambda>x. booking_id x = bookingId) bookings = [b] \<longrightarrow>
       (\<forall>a \<in> set (admin_buttons (status b)).
          \<exists>r. fst (admin_handler a None bookings bookingId) = Inr r
             \<and> (status b, status r) \<in> spec_admin_transitions))
   \<and> (filter (\<lambda>x. booking_id x = bookingId) bookings = [b] \<longrightarrow>
       (\<forall>t. (status b, t) \<in> spec_admin_transitions \<longrightarrow>
          (\<exists>a \<in> set (admin_buttons (status b)).
             \<exists>r. fst (admin_handler a None bookings bookingId) = Inr r \<and> status r = t)))
   \<and> (status b \<in> {canceled, no_show, completed} \<longrightarrow> admin_buttons (status b) = [])"
proof -
  let ?one = "filter (\<lambda>x. booking_id x = bookingId) bookings = [b]"
  have sound: "?one \<longrightarrow> (\<forall>a \<in> set (admin_buttons (status b)).
          \<exists>r. fst (admin_handler a None bookings bookingId) = Inr r
             \<and> (status b, status r) \<in> spec_admin_transitions)"
  proof (intro impI ballI)
    fix a assume one: ?one and a: "a \<in> set (admin_buttons (status b))"
    from admin_handler_status[OF one, of a] obtain r where
      r: "fst (admin_handler a None bookings bookingId) = Inr r"
         "status r = (case a of Approve \<Rightarrow> confirmed | Reject \<Rightarrow> canceled
                  | MarkCompleted \<Rightarrow> completed | MarkNoShow \<Rightarrow> no_show
                  | AdminCancel \<Rightarrow> canceled)" by blast
    from a r(2) have "(status b, status r) \<in> spec_admin_transitions"
      by (auto simp: admin_buttons_def spec_admin_transitions_def split: if_splits)
    with r(1) show "\<exists>r. fst (admin_handler a None bookings bookingId) = Inr r
             \<and> (status b, status r) \<in> spec_admin_transitions" by blast
  qed
  have complete: "?one \<longrightarrow> (\<forall>t. (status b, t) \<in> spec_admin_transitions \<longrightarrow>
          (\<exists>a \<in> set (admin_buttons (status b)).
             \<exists>r. fst (admin_handler a None bookings bookingId) = Inr r \<and> status r = t))"
  proof (intro impI allI)
    fix t assume one: ?one and t: "(status b, t) \<in> spec_admin_transitions"
    define a where "a = (if t = confirmed then Approve else if t = completed then MarkCompleted
        else if t = no_show then MarkNoShow
        else if status b = pending then Reject else AdminCancel)"
    from t have "a \<in> set (admin_buttons (status b))"
      and "t = (case a of Approve \<Rightarrow> confirmed | Reject \<Rightarrow> canceled
                  | MarkCompleted \<Rightarrow> completed | MarkNoShow \<Rightarrow> no_show
                  | AdminCancel \<Rightarrow> canceled)"
      by (auto simp: a_def admin_buttons_def spec_admin_transitions_def)
    with admin_handler_status[OF one, of a]
    show "\<exists>a \<in> set (admin_buttons (status b)).
             \<exists>r. fst (admin_handler a None bookings bookingId) = Inr r \<and> status r = t"
      by auto
  qed
  have terminal: "status b \<in> {canceled, no_show, completed} \<longrightarrow> admin_buttons (status b) = []"
    by (auto simp: admin_buttons_def)
  have fault: "updateBookingStatus (Some err) bookings bookingId newStatus newNotes
      = (Inl err, bookings)"
    by (simp add: updateBookingStatus_def)
  from updateBookingStatus_found[of bookingId bookings b newStatus newNotes]
    updateBookingStatus_missing[of bookingId bookings newStatus newNotes]
    fault sound complete terminal
  show ?thesis by blast
qed

theorem updateBookingStatus_no_transition_check_witness:
  "(let b = \<lparr>start_time = ''10:00'', end_time = ''12:00'', user_id = ''u1'', game_id = ''g1'',
             booking_date = ''2025-06-10'', booking_notes = None, booking_id = ''b1'',
             status = confirmed, total_cost = 1000\<rparr>
    in filter (\<lambda>x. booking_id x = ''b1'') [b] = [b]
       \<and> updateBookingStatus None [b] ''b1'' no_show None
            = (Inr (b\<lparr>status := no_show\<rparr>), [b\<lparr>status := no_show\<rparr>])
       \<and> updateBookingStatus None [b] ''b2'' no_show None
            = (Inl (PostgrestError ''PGRST116''), [b])
       \<and> fst (admin_handler MarkCompleted None [b] ''b1'')
            = Inr (b\<lparr>status := completed, booking_notes := Some ''Booking completed successfully''\<rparr>))"
proof -
  define b where "b = \<lparr>start_time = ''10:00'', end_time = ''12:00'', user_id = ''u1'',
             game_id = ''g1'', booking_date = ''2025-06-10'', booking_notes = None,
             booking_id = ''b1'', status = confirmed, total_cost = 1000\<rparr>"
  have one: "filter (\<lambda>x. booking_id x = ''b1'') [b] = [b]" by (simp add: b_def)
  have none: "filter (\<lambda>x. booking_id x = ''b2'') [b] = []" by (simp add: b_def)
  have id: "booking_id b = ''b1''" by (simp add: b_def)
  from updateBookingStatus_no_transition_check[of "''b1''" "[b]" b no_show None] one id
  have u: "updateBookingStatus None [b] ''b1'' no_show None
            = (Inr (b\<lparr>status := no_show\<rparr>), [b\<lparr>status := no_show\<rparr>])"
    by simp
  from updateBookingStatus_no_transition_check[of "''b2''" "[b]" b no_show None] none
  have m: "updateBookingStatus None [b] ''b2'' no_show None
            = (Inl (PostgrestError ''PGRST116''), [b])"
    by simp
  from updateBookingStatus_no_transition_check[of "''b1''" "[b]" b completed
         "Some ''Booking completed successfully''"] one
  have "fst (admin_handler MarkCompleted None [b] ''b1'')
            = Inr (b\<lparr>status := completed, booking_notes := Some ''Booking completed successfully''\<rparr>)"
    by (simp add: markCompleted_def or_else_def)
  with one u m show ?thesis unfolding b_def Let_def by simp
qed

theorem updateBookingStatus_completed_to_confirmed_counterexample:
  "updateBookingStatus None
     [\<lparr>start_time = ''10:00'', end_time = ''12:00'', user_id = ''u1'', game_id = ''g1'',
       booking_date = ''2025-06-10'', booking_notes = None, booking_id = ''b1'',
       status = completed, total_cost = 1000\<rparr>]
     ''b1'' confirmed None
   = (Inr \<lparr>start_time = ''10:00'', end_time = ''12:00'', user_id = ''u1'', game_id = ''g1'',
          booking_date = ''2025-06-10'', booking_notes = None, booking_id = ''b1'',
          status = confirmed, total_cost = 1000\<rparr>,
      [\<lparr>start_time = ''10:00'', end_time = ''12:00'', user_id = ''u1'', game_id = ''g1'',
        booking_date = ''2025-06-10'', booking_notes = None, booking_id = ''b1'',
        status = confirmed, total_cost = 1000\<rparr>])"
  by (simp add: Let_def updateBookingStatus_def)

end
